theory Spec2Isabelle
  imports Main "HOL-Library.Word"
begin

section \<open>The binding layer of node-leveldb: DB.cc\<close>

text \<open>
  A shallow embedding of \<^verbatim>\<open>src/DB.cc\<close>: the binding object \<^verbatim>\<open>DB\<close> with its engine
  handle, the parameter bundles handed from the JavaScript thread to the worker and
  back, the worker functions \<^verbatim>\<open>EIO_*\<close>, the completion functions \<^verbatim>\<open>EIO_After*\<close>
  and \<^verbatim>\<open>Params::Callback\<close>.

  What lies outside the file is modelled as its environment: JavaScript values, the
  storage engine (a key-value map), libeio (a queue of requests that a scheduler
  executes and completes in any order) and the event loop's reference count.
\<close>

subsection \<open>Bytes and text\<close>

type_synonym byte = "8 word"

text \<open>
  JavaScript text is a sequence of code points. \<^verbatim>\<open>String::Utf8Value\<close> transcodes text to
  UTF-8 bytes: a Unicode scalar value to its one to four bytes, any other code point (a
  lone surrogate) to the bytes of U+FFFD.
\<close>

definition scalar_value :: "nat \<Rightarrow> bool" where
  "scalar_value c = (c < 0xD800 \<or> (0xE000 \<le> c \<and> c < 0x110000))"

definition utf8_char :: "nat \<Rightarrow> byte list" where
  "utf8_char c =
     (if scalar_value c then
        (if c < 0x80 then [of_nat c]
         else if c < 0x800 then [of_nat (0xC0 + c div 0x40), of_nat (0x80 + c mod 0x40)]
         else if c < 0x10000 then
           [of_nat (0xE0 + c div 0x1000), of_nat (0x80 + c div 0x40 mod 0x40),
            of_nat (0x80 + c mod 0x40)]
         else
           [of_nat (0xF0 + c div 0x40000), of_nat (0x80 + c div 0x1000 mod 0x40),
            of_nat (0x80 + c div 0x40 mod 0x40), of_nat (0x80 + c mod 0x40)])
      else [0xEF, 0xBF, 0xBD])"

definition Utf8Value :: "nat list \<Rightarrow> byte list" where
  "Utf8Value s = concat (map utf8_char s)"

text \<open>
  \<^verbatim>\<open>String::New(data, length)\<close> reads UTF-8 bytes as text. A well-formed sequence is read
  as its scalar value. Bytes that start a sequence and do not complete it (as far as
  they could still be completed) become one U+FFFD, and so does each byte that starts
  none; overlong forms, encoded surrogates and values above U+10FFFF are not
  well-formed. \<open>second_ok\<close> is the range of the second byte after a three- or four-byte
  lead.
\<close>

definition is_cont :: "byte \<Rightarrow> bool" where
  "is_cont b = (0x80 \<le> b \<and> b < 0xC0)"

definition cont_bits :: "byte \<Rightarrow> nat" where
  "cont_bits b = unat b mod 0x40"

definition second_ok :: "byte \<Rightarrow> byte \<Rightarrow> bool" where
  "second_ok a b =
     (if a = 0xE0 then 0xA0 \<le> b \<and> b < 0xC0
      else if a = 0xED then 0x80 \<le> b \<and> b < 0xA0
      else if a = 0xF0 then 0x90 \<le> b \<and> b < 0xC0
      else if a = 0xF4 then 0x80 \<le> b \<and> b < 0x90
      else is_cont b)"

fun String_New :: "byte list \<Rightarrow> nat list" where
  "String_New [] = []"
| "String_New (a # bs) =
     (if a < 0x80 then unat a # String_New bs
      else if 0xC2 \<le> a \<and> a < 0xE0 then
        (case bs of
           [] \<Rightarrow> [0xFFFD]
         | b # r \<Rightarrow>
             if is_cont b then (unat a mod 0x20 * 0x40 + cont_bits b) # String_New r
             else 0xFFFD # String_New bs)
      else if 0xE0 \<le> a \<and> a < 0xF0 then
        (case bs of
           [] \<Rightarrow> [0xFFFD]
         | b # r \<Rightarrow>
             if second_ok a b then
               (case r of
                  [] \<Rightarrow> [0xFFFD]
                | c # r' \<Rightarrow>
                    if is_cont c
                    then (unat a mod 0x10 * 0x1000 + cont_bits b * 0x40 + cont_bits c)
                           # String_New r'
                    else 0xFFFD # String_New r)
             else 0xFFFD # String_New bs)
      else if 0xF0 \<le> a \<and> a < 0xF5 then
        (case bs of
           [] \<Rightarrow> [0xFFFD]
         | b # r \<Rightarrow>
             if second_ok a b then
               (case r of
                  [] \<Rightarrow> [0xFFFD]
                | c # r' \<Rightarrow>
                    if is_cont c then
                      (case r' of
                         [] \<Rightarrow> [0xFFFD]
                       | d # r'' \<Rightarrow>
                           if is_cont d
                           then (unat a mod 8 * 0x40000 + cont_bits b * 0x1000
                                  + cont_bits c * 0x40 + cont_bits d) # String_New r''
                           else 0xFFFD # String_New r')
                    else 0xFFFD # String_New r)
             else 0xFFFD # String_New bs)
      else 0xFFFD # String_New bs)"


text \<open>
  A \<^verbatim>\<open>char*\<close> read as a C string ends before its first NUL: the file name \<^verbatim>\<open>*name\<close>
  given to the open bundle, and the status text \<^verbatim>\<open>status.ToString().c_str()\<close> given to
  \<^verbatim>\<open>String::New\<close> without a length.
\<close>

definition c_str :: "byte list \<Rightarrow> byte list" where
  "c_str bs = takeWhile (\<lambda>b. b \<noteq> 0) bs"

definition c_chars :: "string \<Rightarrow> string" where
  "c_chars cs = takeWhile (\<lambda>c. c \<noteq> CHR 0x00) cs"

subsection \<open>JavaScript values\<close>

text \<open>
  A function value is opaque: it has an identity, and calling it either returns or
  throws. The binding object itself is \<open>JsDB\<close> (\<^verbatim>\<open>args.This()\<close>, \<^verbatim>\<open>self->handle_\<close>).
\<close>

datatype js_function = Fn (fn_id: nat) (fn_throws: bool)

datatype js_value =
    JsUndefined
  | JsNull
  | JsBoolean bool
  | JsNumber int
  | JsString "nat list"
  | JsBuffer "byte list"
  | JsFunction js_function
  | JsObject "(string \<times> js_value) list"
  | JsWriteBatch nat
  | JsIterator js_value
  | JsDB
  | JsError string
  | JsTypeError string

fun IsString :: "js_value \<Rightarrow> bool" where
  "IsString (JsString s) = True"
| "IsString v = False"

fun IsFunction :: "js_value \<Rightarrow> bool" where
  "IsFunction (JsFunction f) = True"
| "IsFunction v = False"

fun IsObject :: "js_value \<Rightarrow> bool" where
  "IsObject JsUndefined = False"
| "IsObject JsNull = False"
| "IsObject (JsBoolean b) = False"
| "IsObject (JsNumber n) = False"
| "IsObject (JsString s) = False"
| "IsObject v = True"

fun Buffer_HasInstance :: "js_value \<Rightarrow> bool" where
  "Buffer_HasInstance (JsBuffer b) = True"
| "Buffer_HasInstance v = False"

text \<open>\<^verbatim>\<open>args[i]\<close>: an index past the arguments reads as undefined.\<close>

definition arg :: "js_value list \<Rightarrow> nat \<Rightarrow> js_value" where
  "arg args i = (if i < length args then args ! i else JsUndefined)"

subsection \<open>The storage engine\<close>

text \<open>
  \<^verbatim>\<open>leveldb::Status\<close>, read by the binding through \<^verbatim>\<open>ok()\<close>, \<^verbatim>\<open>IsNotFound()\<close> and
  \<^verbatim>\<open>ToString()\<close>. A default-constructed status is \<open>OK\<close>.
\<close>

datatype status =
    OK
  | NotFound string
  | Corruption string
  | NotSupported string
  | InvalidArgument string
  | IOError string

fun ok :: "status \<Rightarrow> bool" where
  "ok OK = True"
| "ok s = False"

fun IsNotFound :: "status \<Rightarrow> bool" where
  "IsNotFound (NotFound m) = True"
| "IsNotFound s = False"

fun ToString :: "status \<Rightarrow> string" where
  "ToString OK = ''OK''"
| "ToString (NotFound m) = ''NotFound: '' @ m"
| "ToString (Corruption m) = ''Corruption: '' @ m"
| "ToString (NotSupported m) = ''Not implemented: '' @ m"
| "ToString (InvalidArgument m) = ''Invalid argument: '' @ m"
| "ToString (IOError m) = ''IO error: '' @ m"

text \<open>
  The option structs are passed through to the engine untouched: the default-constructed
  struct, or the conversion of a JavaScript object (\<^verbatim>\<open>JsToOptions\<close>,
  \<^verbatim>\<open>JsToReadOptions\<close>, \<^verbatim>\<open>JsToWriteOptions\<close> of helpers.h), left uninterpreted.
\<close>

datatype Options = Options_default | JsToOptions js_value
datatype ReadOptions = ReadOptions_default | JsToReadOptions js_value
datatype WriteOptions = WriteOptions_default | JsToWriteOptions js_value

text \<open>
  An engine instance (\<^verbatim>\<open>leveldb::DB\<close>): the name it was opened under and its contents.
  A batch (\<^verbatim>\<open>leveldb::WriteBatch\<close>) is the ordered list of its entries, whose bytes
  it copies when the entry is added.
\<close>

record leveldb_DB =
  dbname :: "byte list"
  contents :: "byte list \<rightharpoonup> byte list"

datatype batch_entry = PutEntry "byte list" "byte list" | DeleteEntry "byte list"

fun apply_entry :: "(byte list \<rightharpoonup> byte list) \<Rightarrow> batch_entry \<Rightarrow> (byte list \<rightharpoonup> byte list)" where
  "apply_entry m (PutEntry k v) = m(k \<mapsto> v)"
| "apply_entry m (DeleteEntry k) = m(k := None)"

text \<open>\<^verbatim>\<open>db->Write(options, &batch)\<close>: the entries in order, as one unit.\<close>

definition leveldb_Write :: "leveldb_DB \<Rightarrow> WriteOptions \<Rightarrow> batch_entry list \<Rightarrow> status \<times> leveldb_DB" where
  "leveldb_Write e opts entries = (OK, e\<lparr>contents := foldl apply_entry (contents e) entries\<rparr>)"

text \<open>
  \<^verbatim>\<open>db->Get(options, key, &value)\<close>: the stored bytes, or NotFound with the output string
  left as it was.
\<close>

definition leveldb_Get :: "leveldb_DB \<Rightarrow> ReadOptions \<Rightarrow> byte list \<Rightarrow> byte list \<Rightarrow> status \<times> byte list" where
  "leveldb_Get e opts k out =
     (case contents e k of None \<Rightarrow> (NotFound [], out) | Some v \<Rightarrow> (OK, v))"

text \<open>
  \<^verbatim>\<open>leveldb::DB::Open(options, name, &dbptr)\<close> answers with a new instance, or with a
  failure status and a null \<^verbatim>\<open>dbptr\<close>. Which of the two depends on the file system, so
  the answer is an input of the model.
\<close>

datatype open_answer = Opened leveldb_DB | OpenFailed status

subsection \<open>Helpers of helpers.h and WriteBatch.h\<close>

text \<open>
  A \<^verbatim>\<open>WriteBatch\<close> object of the binding: the engine's batch \<^verbatim>\<open>wb\<close> and the vector
  \<^verbatim>\<open>strings\<close> that owns the copies of transcoded text.
\<close>

record WriteBatch =
  wb :: "batch_entry list"
  strings :: "byte list list"

text \<open>
  Modelled from the spec: \<^verbatim>\<open>JsToSlice\<close> is declared in helpers.h, which is not among the
  sources. Text is transcoded and copied into the owned storage it is given (when it is
  given one); a byte buffer is borrowed as it is; any other value is the empty slice.
  The slice is its bytes.
\<close>

fun JsToSlice :: "js_value \<Rightarrow> byte list list option \<Rightarrow> byte list \<times> byte list list option" where
  "JsToSlice (JsString s) (Some strs) = (Utf8Value s, Some (strs @ [Utf8Value s]))"
| "JsToSlice (JsBuffer b) strs = (b, strs)"
| "JsToSlice v strs = ([], strs)"

subsection \<open>The binding object, the parameter bundles and the world\<close>

text \<open>
  \<^verbatim>\<open>Params\<close> and the classes derived from it. The base class holds the callback (an
  empty handle when the caller gave none) and the outcome status; \<^verbatim>\<open>self\<close> is the one
  binding object of the world.
\<close>

record Params =
  callback :: "js_function option"
  status :: status

record OpenParams = Params +
  name :: "byte list"
  options :: Options

record WriteParams = Params +
  writeBatch :: nat
  woptions :: WriteOptions
  disposeWriteBatch :: bool

record ReadParams = Params +
  key :: "byte list"
  roptions :: ReadOptions
  result :: "byte list"
  rstrings :: "byte list list option"

datatype request =
    OpenReq OpenParams
  | CloseReq Params
  | WriteReq WriteParams
  | ReadReq ReadParams

text \<open>
  What the binding does to its environment, in the order it does it, each with the
  thread it happens on.
\<close>

datatype thread = CallerThread | WorkerThread

datatype fault = NullDereference | UnwrapFailed | UnrefAtZero | DanglingWriteBatch

datatype event =
    Params_new
  | Params_delete
  | Eio_custom
  | Leveldb_delete leveldb_DB
  | Leveldb_Open Options "byte list"
  | Leveldb_Write "batch_entry list"
  | Leveldb_Get "byte list"
  | Leveldb_NewIterator ReadOptions
  | WriteBatch_new nat
  | WriteBatch_delete nat
  | Call js_function js_value "js_value list"
  | FatalException
  | Faulted fault

text \<open>
  The world: the binding object (\<^verbatim>\<open>db\<close> is \<^verbatim>\<open>self->db\<close>, null as \<open>None\<close>; \<^verbatim>\<open>refs\<close> is
  the count of \<^verbatim>\<open>ObjectWrap::Ref\<close>), the event loop's reference count, the
  \<^verbatim>\<open>WriteBatch\<close> objects on the heap, the requests given to libeio (dispatched and not
  yet executed; executed and not yet completed) and the trace of events.
\<close>

record world =
  db :: "leveldb_DB option"
  refs :: int
  loop_refs :: int
  batches :: "nat \<rightharpoonup> WriteBatch"
  next_batch :: nat
  pending :: "request list"
  executed :: "request list"
  trace :: "(thread \<times> event) list"

definition log_event :: "thread \<Rightarrow> event \<Rightarrow> world \<Rightarrow> world" where
  "log_event t e w = w\<lparr>trace := trace w @ [(t, e)]\<rparr>"

text \<open>\<^verbatim>\<open>ObjectWrap::Ref\<close> and \<^verbatim>\<open>Unref\<close> (the latter asserts a positive count).\<close>

definition Ref :: "world \<Rightarrow> world" where
  "Ref w = w\<lparr>refs := refs w + 1\<rparr>"

definition Unref :: "world \<Rightarrow> world" where
  "Unref w =
     (if refs w \<le> 0 then log_event CallerThread (Faulted UnrefAtZero) w
      else w\<lparr>refs := refs w - 1\<rparr>)"

definition ev_ref :: "world \<Rightarrow> world" where
  "ev_ref w = w\<lparr>loop_refs := loop_refs w + 1\<rparr>"

definition ev_unref :: "world \<Rightarrow> world" where
  "ev_unref w = w\<lparr>loop_refs := loop_refs w - 1\<rparr>"

text \<open>
  \<^verbatim>\<open>DB::Params::Params\<close> and \<^verbatim>\<open>DB::Params::~Params\<close>: the effects on the world. The
  bundle's fields are set where the bundle is built.
\<close>

definition Params_ctor :: "world \<Rightarrow> world" where
  "Params_ctor w = log_event CallerThread Params_new (ev_ref (Ref w))"

definition Params_dtor :: "world \<Rightarrow> world" where
  "Params_dtor w = log_event CallerThread Params_delete (ev_unref (Unref w))"

text \<open>
  Modelled from the spec: the constructors of the derived bundles are declared in DB.h,
  which is not among the sources. Each stores its arguments and starts from the
  default outcome; a write bundle does not own its batch unless told so.
\<close>

definition new_Params :: "js_function option \<Rightarrow> Params" where
  "new_Params cb = \<lparr>callback = cb, status = OK\<rparr>"

definition new_OpenParams :: "byte list \<Rightarrow> Options \<Rightarrow> js_function option \<Rightarrow> OpenParams" where
  "new_OpenParams n opts cb = \<lparr>callback = cb, status = OK, name = n, options = opts\<rparr>"

definition new_WriteParams :: "nat \<Rightarrow> WriteOptions \<Rightarrow> js_function option \<Rightarrow> WriteParams" where
  "new_WriteParams b opts cb =
     \<lparr>callback = cb, status = OK, writeBatch = b, woptions = opts, disposeWriteBatch = False\<rparr>"

definition new_ReadParams ::
  "byte list \<Rightarrow> ReadOptions \<Rightarrow> js_function option \<Rightarrow> byte list list option \<Rightarrow> ReadParams" where
  "new_ReadParams k opts cb strs =
     \<lparr>callback = cb, status = OK, key = k, roptions = opts, result = [], rstrings = strs\<rparr>"

subsection \<open>\<^verbatim>\<open>DB::Params::Callback\<close>\<close>

text \<open>
  The arguments the callback is called with: none, or null and the result, for an OK
  status; null alone for NotFound; otherwise an error object whose message is read from
  the status text as a C string.
\<close>

definition callback_argv :: "status \<Rightarrow> js_value option \<Rightarrow> js_value list" where
  "callback_argv st res =
     (if ok st then (case res of None \<Rightarrow> [] | Some r \<Rightarrow> [JsNull, r])
      else if IsNotFound st then [JsNull]
      else [JsError (c_chars (ToString st))])"

definition Callback :: "'a Params_scheme \<Rightarrow> js_value option \<Rightarrow> world \<Rightarrow> world" where
  "Callback p res w =
     (case callback p of
        None \<Rightarrow> w
      | Some f \<Rightarrow>
          let w1 = log_event CallerThread (Call f JsDB (callback_argv (status p) res)) w
          in if fn_throws f then log_event CallerThread FatalException w1 else w1)"

subsection \<open>libeio\<close>

text \<open>
  \<^verbatim>\<open>eio_custom(execute, pri, after, params)\<close> queues a request. The bundle's class tells
  which pair of functions it was queued with.
\<close>

definition eio_custom :: "request \<Rightarrow> world \<Rightarrow> world" where
  "eio_custom r w = (log_event CallerThread Eio_custom w)\<lparr>pending := pending w @ [r]\<rparr>"

subsection \<open>The worker functions\<close>

definition delete_db :: "thread \<Rightarrow> world \<Rightarrow> world" where
  "delete_db t w =
     (case db w of
        None \<Rightarrow> w
      | Some e \<Rightarrow> (log_event t (Leveldb_delete e) w)\<lparr>db := None\<rparr>)"

definition EIO_Open :: "open_answer \<Rightarrow> OpenParams \<Rightarrow> world \<Rightarrow> OpenParams \<times> world" where
  "EIO_Open answer p w =
     (let w1 = delete_db WorkerThread w;
          w2 = log_event WorkerThread (Leveldb_Open (options p) (name p)) w1
      in case answer of
           Opened e \<Rightarrow> (p\<lparr>status := OK\<rparr>, w2\<lparr>db := Some e\<rparr>)
         | OpenFailed st \<Rightarrow> (p\<lparr>status := st\<rparr>, w2\<lparr>db := None\<rparr>))"

definition EIO_Close :: "Params \<Rightarrow> world \<Rightarrow> Params \<times> world" where
  "EIO_Close p w = (p, delete_db WorkerThread w)"

definition EIO_Write :: "WriteParams \<Rightarrow> world \<Rightarrow> WriteParams \<times> world" where
  "EIO_Write p w =
     (case db w of
        None \<Rightarrow> (p, w)
      | Some e \<Rightarrow>
          (case batches w (writeBatch p) of
             None \<Rightarrow> (p, log_event WorkerThread (Faulted DanglingWriteBatch) w)
           | Some b \<Rightarrow>
               let (st, e') = leveldb_Write e (woptions p) (wb b)
               in (p\<lparr>status := st\<rparr>,
                   (log_event WorkerThread (Leveldb_Write (wb b)) w)\<lparr>db := Some e'\<rparr>)))"

definition EIO_Read :: "ReadParams \<Rightarrow> world \<Rightarrow> ReadParams \<times> world" where
  "EIO_Read p w =
     (case db w of
        None \<Rightarrow> (p, w)
      | Some e \<Rightarrow>
          let (st, out) = leveldb_Get e (roptions p) (key p) (result p)
          in (p\<lparr>status := st, result := out\<rparr>, log_event WorkerThread (Leveldb_Get (key p)) w))"

subsection \<open>The completion functions\<close>

definition EIO_AfterOpen :: "OpenParams \<Rightarrow> world \<Rightarrow> world" where
  "EIO_AfterOpen p w = Params_dtor (Callback p None w)"

definition EIO_AfterClose :: "Params \<Rightarrow> world \<Rightarrow> world" where
  "EIO_AfterClose p w = Params_dtor (Callback p None w)"

definition delete_WriteBatch :: "nat \<Rightarrow> world \<Rightarrow> world" where
  "delete_WriteBatch a w =
     (log_event CallerThread (WriteBatch_delete a) w)\<lparr>batches := (batches w)(a := None)\<rparr>"

definition EIO_AfterWrite :: "WriteParams \<Rightarrow> world \<Rightarrow> world" where
  "EIO_AfterWrite p w =
     (let w1 = Callback p None w;
          w2 = (if disposeWriteBatch p then delete_WriteBatch (writeBatch p) w1 else w1)
      in Params_dtor w2)"

definition EIO_AfterRead :: "ReadParams \<Rightarrow> world \<Rightarrow> world" where
  "EIO_AfterRead p w = Params_dtor (Callback p (Some (JsString (String_New (result p)))) w)"

subsection \<open>The methods called from JavaScript\<close>

text \<open>
  A method returns a value, throws an exception, or faults (a null pointer is
  dereferenced, an assertion fails).
\<close>

datatype js_result = Returned js_value | Thrown js_value | Crashed fault

fun as_function :: "js_value \<Rightarrow> js_function option" where
  "as_function (JsFunction f) = Some f"
| "as_function v = None"

text \<open>
  The two optional trailing arguments, read the same way by every method: an object
  that is not a function is the options; a function after it is the callback.
\<close>

definition has_options :: "js_value list \<Rightarrow> nat \<Rightarrow> bool" where
  "has_options args pos =
     (pos < length args \<and> IsObject (arg args pos) \<and> \<not> IsFunction (arg args pos))"

definition opt_callback :: "js_value list \<Rightarrow> nat \<Rightarrow> js_function option" where
  "opt_callback args pos =
     (if pos < length args \<and> IsFunction (arg args pos) then as_function (arg args pos)
      else None)"

definition not_opened :: js_value where
  "not_opened = JsError ''DB has not been opened''"

text \<open>
  \<^verbatim>\<open>args.Length() < 1 || !args[0]->IsString()\<close>: an absent first argument reads as
  undefined, which is no string, so the one test on \<open>arg args 0\<close> covers both.
\<close>

definition DB_Open :: "js_value list \<Rightarrow> world \<Rightarrow> js_result \<times> world" where
  "DB_Open args w =
     (case arg args 0 of
        JsString s \<Rightarrow>
          let pos = 1;
              opts = (if has_options args pos then JsToOptions (arg args pos)
                      else Options_default);
              pos = (if has_options args pos then pos + 1 else pos);
              cb = opt_callback args pos;
              params = new_OpenParams (c_str (Utf8Value s)) opts cb
          in (Returned JsDB, eio_custom (OpenReq params) (Params_ctor w))
      | _ \<Rightarrow> (Thrown (JsTypeError ''DB.open() expects a filename''), w))"

definition DB_Close :: "js_value list \<Rightarrow> world \<Rightarrow> js_result \<times> world" where
  "DB_Close args w =
     (let cb = opt_callback args 0;
          params = new_Params cb
      in (Returned JsDB, eio_custom (CloseReq params) (Params_ctor w)))"

text \<open>\<^verbatim>\<open>new WriteBatch()\<close>, filled and stored at a fresh address.\<close>

definition new_WriteBatch :: "WriteBatch \<Rightarrow> world \<Rightarrow> world" where
  "new_WriteBatch b w =
     (log_event CallerThread (WriteBatch_new (next_batch w)) w)
       \<lparr>batches := (batches w)(next_batch w \<mapsto> b), next_batch := Suc (next_batch w)\<rparr>"

definition owned :: "byte list list option \<Rightarrow> byte list list" where
  "owned strs = (case strs of None \<Rightarrow> [] | Some ss \<Rightarrow> ss)"

definition string_or_buffer :: "js_value \<Rightarrow> bool" where
  "string_or_buffer v = (IsString v \<or> Buffer_HasInstance v)"

definition DB_Put :: "js_value list \<Rightarrow> world \<Rightarrow> js_result \<times> world" where
  "DB_Put args w =
     (if db w = None then (Thrown not_opened, w)
      else if length args < 2 \<or> (\<not> IsString (arg args 0) \<and> \<not> Buffer_HasInstance (arg args 0))
              \<or> (\<not> IsString (arg args 1) \<and> \<not> Buffer_HasInstance (arg args 1))
      then (Thrown (JsTypeError ''DB.put() expects key, value''), w)
      else
        let (k, strs1) = JsToSlice (arg args 0) (Some []);
            (v, strs2) = JsToSlice (arg args 1) strs1;
            w1 = new_WriteBatch \<lparr>wb = [PutEntry k v], strings = owned strs2\<rparr> w;
            pos = 2;
            opts = (if has_options args pos then JsToWriteOptions (arg args pos)
                    else WriteOptions_default);
            pos = (if has_options args pos then pos + 1 else pos);
            cb = opt_callback args pos;
            params = (new_WriteParams (next_batch w) opts cb)\<lparr>disposeWriteBatch := True\<rparr>
        in (Returned JsDB, eio_custom (WriteReq params) (Params_ctor w1)))"

definition DB_Del :: "js_value list \<Rightarrow> world \<Rightarrow> js_result \<times> world" where
  "DB_Del args w =
     (if db w = None then (Thrown not_opened, w)
      else if length args < 1 \<or> (\<not> IsString (arg args 0) \<and> \<not> Buffer_HasInstance (arg args 0))
      then (Thrown (JsTypeError ''DB.del() expects key''), w)
      else
        let (k, strs1) = JsToSlice (arg args 0) (Some []);
            w1 = new_WriteBatch \<lparr>wb = [DeleteEntry k], strings = owned strs1\<rparr> w;
            pos = 1;
            opts = (if has_options args pos then JsToWriteOptions (arg args pos)
                    else WriteOptions_default);
            pos = (if has_options args pos then pos + 1 else pos);
            cb = opt_callback args pos;
            params = (new_WriteParams (next_batch w) opts cb)\<lparr>disposeWriteBatch := True\<rparr>
        in (Returned JsDB, eio_custom (WriteReq params) (Params_ctor w1)))"

text \<open>
  \<^verbatim>\<open>ObjectWrap::Unwrap<WriteBatch>\<close> yields the wrapped pointer of a batch object; on any
  other object its assertion fails.
\<close>

definition DB_Write :: "js_value list \<Rightarrow> world \<Rightarrow> js_result \<times> world" where
  "DB_Write args w =
     (if db w = None then (Thrown not_opened, w)
      else if length args < 1 \<or> \<not> IsObject (arg args 0)
      then (Thrown (JsTypeError ''DB.write() expects a WriteBatch object''), w)
      else
        (case arg args 0 of
           JsWriteBatch a \<Rightarrow>
             let pos = 1;
                 opts = (if has_options args pos then JsToWriteOptions (arg args pos)
                         else WriteOptions_default);
                 pos = (if has_options args pos then pos + 1 else pos);
                 cb = opt_callback args pos;
                 params = new_WriteParams a opts cb
             in (Returned JsDB, eio_custom (WriteReq params) (Params_ctor w))
         | _ \<Rightarrow> (Crashed UnwrapFailed, log_event CallerThread (Faulted UnwrapFailed) w)))"

definition DB_Get :: "js_value list \<Rightarrow> world \<Rightarrow> js_result \<times> world" where
  "DB_Get args w =
     (if length args < 1 \<or> (\<not> IsString (arg args 0) \<and> \<not> Buffer_HasInstance (arg args 0))
      then (Thrown (JsTypeError ''DB.get() expects key''), w)
      else if db w = None then (Thrown not_opened, w)
      else
        let strs = (if IsString (arg args 0) then Some [[]] else None);
            (k, strs1) = JsToSlice (arg args 0) strs;
            pos = 1;
            opts = (if has_options args pos then JsToReadOptions (arg args pos)
                    else ReadOptions_default);
            pos = (if has_options args pos then pos + 1 else pos);
            cb = opt_callback args pos;
            params = new_ReadParams k opts cb strs1
        in (Returned JsDB, eio_custom (ReadReq params) (Params_ctor w)))"

text \<open>
  \<^verbatim>\<open>DB::NewIterator\<close> calls through \<^verbatim>\<open>self->db\<close> without looking at it first.
\<close>

definition DB_NewIterator :: "js_value list \<Rightarrow> world \<Rightarrow> js_result \<times> world" where
  "DB_NewIterator args w =
     (if \<not> (length args = 1 \<and> IsObject (arg args 0))
      then (Thrown (JsTypeError ''Invalid arguments: Expected (Object)''), w)
      else
        (case db w of
           None \<Rightarrow> (Crashed NullDereference, log_event CallerThread (Faulted NullDereference) w)
         | Some e \<Rightarrow>
             (Returned (JsIterator (arg args 0)),
              log_event CallerThread (Leveldb_NewIterator (JsToReadOptions (arg args 0))) w)))"

subsection \<open>The scheduler\<close>

text \<open>
  A worker takes any dispatched request and runs its \<^verbatim>\<open>execute\<close> function; the event
  loop takes any executed request and runs its \<^verbatim>\<open>after\<close> function on the caller thread.
  \<open>answer\<close> is what the engine says should the request be an open.
\<close>

definition remove_nth :: "nat \<Rightarrow> 'a list \<Rightarrow> 'a list" where
  "remove_nth i xs = take i xs @ drop (Suc i) xs"

definition execute :: "open_answer \<Rightarrow> request \<Rightarrow> world \<Rightarrow> request \<times> world" where
  "execute answer r w =
     (case r of
        OpenReq p \<Rightarrow> (let (p', w') = EIO_Open answer p w in (OpenReq p', w'))
      | CloseReq p \<Rightarrow> (let (p', w') = EIO_Close p w in (CloseReq p', w'))
      | WriteReq p \<Rightarrow> (let (p', w') = EIO_Write p w in (WriteReq p', w'))
      | ReadReq p \<Rightarrow> (let (p', w') = EIO_Read p w in (ReadReq p', w')))"

definition after :: "request \<Rightarrow> world \<Rightarrow> world" where
  "after r w =
     (case r of
        OpenReq p \<Rightarrow> EIO_AfterOpen p w
      | CloseReq p \<Rightarrow> EIO_AfterClose p w
      | WriteReq p \<Rightarrow> EIO_AfterWrite p w
      | ReadReq p \<Rightarrow> EIO_AfterRead p w)"

definition eio_execute :: "open_answer \<Rightarrow> nat \<Rightarrow> world \<Rightarrow> world" where
  "eio_execute answer i w =
     (if i < length (pending w) then
        let (r', w') = execute answer (pending w ! i) (w\<lparr>pending := remove_nth i (pending w)\<rparr>)
        in w'\<lparr>executed := executed w' @ [r']\<rparr>
      else w)"

definition eio_complete :: "nat \<Rightarrow> world \<Rightarrow> world" where
  "eio_complete i w =
     (if i < length (executed w) then
        after (executed w ! i) (w\<lparr>executed := remove_nth i (executed w)\<rparr>)
      else w)"

text \<open>
  The request dispatched last, run with nothing in between: executed, then completed.
\<close>

definition run_newest :: "open_answer \<Rightarrow> world \<Rightarrow> world" where
  "run_newest answer w =
     (if pending w = [] then w
      else eio_complete (length (executed w)) (eio_execute answer (length (pending w) - 1) w))"

text \<open>
  Everything that can happen to the binding: JavaScript calls a method, a worker executes
  a request, the event loop completes one.
\<close>

datatype js_method = M_open | M_close | M_put | M_del | M_write | M_get | M_newIterator

fun invoke :: "js_method \<Rightarrow> js_value list \<Rightarrow> world \<Rightarrow> js_result \<times> world" where
  "invoke M_open args w = DB_Open args w"
| "invoke M_close args w = DB_Close args w"
| "invoke M_put args w = DB_Put args w"
| "invoke M_del args w = DB_Del args w"
| "invoke M_write args w = DB_Write args w"
| "invoke M_get args w = DB_Get args w"
| "invoke M_newIterator args w = DB_NewIterator args w"

datatype transition =
    Invoke js_method "js_value list"
  | Work open_answer nat
  | Finish nat

fun step :: "world \<Rightarrow> transition \<Rightarrow> world" where
  "step w (Invoke m args) = snd (invoke m args w)"
| "step w (Work answer i) = eio_execute answer i w"
| "step w (Finish i) = eio_complete i w"

definition run :: "transition list \<Rightarrow> world \<Rightarrow> world" where
  "run ts w = foldl step w ts"

subsection \<open>Observations\<close>

text \<open>The callback invocations of a trace, and how often an event occurs in it.\<close>

fun call_of :: "thread \<times> event \<Rightarrow> (js_function \<times> js_value list) option" where
  "call_of (t, Call f this argv) = Some (f, argv)"
| "call_of (t, e) = None"

definition calls :: "world \<Rightarrow> (js_function \<times> js_value list) list" where
  "calls w = List.map_filter call_of (trace w)"

definition occurrences :: "event \<Rightarrow> world \<Rightarrow> nat" where
  "occurrences e w = length (filter (\<lambda>x. snd x = e) (trace w))"

definition in_flight :: "world \<Rightarrow> nat" where
  "in_flight w = length (pending w) + length (executed w)"

fun req_callback :: "request \<Rightarrow> js_function option" where
  "req_callback (OpenReq p) = callback p"
| "req_callback (CloseReq p) = callback p"
| "req_callback (WriteReq p) = callback p"
| "req_callback (ReadReq p) = callback p"

fun req_status :: "request \<Rightarrow> status" where
  "req_status (OpenReq p) = status p"
| "req_status (CloseReq p) = status p"
| "req_status (WriteReq p) = status p"
| "req_status (ReadReq p) = status p"

text \<open>What a completion function hands to \<^verbatim>\<open>Callback\<close> as the result.\<close>

fun payload :: "request \<Rightarrow> js_value option" where
  "payload (ReadReq p) = Some (JsString (String_New (result p)))"
| "payload r = None"

text \<open>The world before anything was opened or dispatched.\<close>

definition initial_world :: world where
  "initial_world =
     \<lparr>db = None, refs = 0, loop_refs = 0, batches = Map.empty, next_batch = 0,
      pending = [], executed = [], trace = []\<rparr>"

text \<open>The events a completion leaves in the trace besides the bundle's destruction.\<close>

fun dispose_events :: "request \<Rightarrow> (thread \<times> event) list" where
  "dispose_events (WriteReq p) =
     (if disposeWriteBatch p then [(CallerThread, WriteBatch_delete (writeBatch p))] else [])"
| "dispose_events r = []"

definition callback_events :: "js_function option \<Rightarrow> js_value list \<Rightarrow> (thread \<times> event) list" where
  "callback_events cb argv =
     (case cb of None \<Rightarrow> []
      | Some f \<Rightarrow> (CallerThread, Call f JsDB argv)
          # (if fn_throws f then [(CallerThread, FatalException)] else []))"

fun is_get_or_write :: "request \<Rightarrow> bool" where
  "is_get_or_write (ReadReq p) = True"
| "is_get_or_write (WriteReq p) = True"
| "is_get_or_write r = False"

text \<open>
  Example worlds: an open handle on an empty store, and a get overtaken by a close (the
  get is dispatched on the open handle, the close is dispatched and executed before it).
\<close>

definition empty_engine :: leveldb_DB where
  "empty_engine = \<lparr>dbname = [], contents = Map.empty\<rparr>"

definition open_world :: world where
  "open_world = initial_world\<lparr>db := Some empty_engine\<rparr>"

definition closed_under_get :: world where
  "closed_under_get =
     run [Invoke M_get [JsString [0x6B], JsFunction (Fn 5 False)], Invoke M_close [],
          Work (OpenFailed OK) 1] open_world"

text \<open>
  The bytes a key or value stands for (what \<^verbatim>\<open>JsToSlice\<close> views), and the copies of
  transcoded text it leaves in the owned storage.
\<close>

fun slice_bytes :: "js_value \<Rightarrow> byte list" where
  "slice_bytes (JsString s) = Utf8Value s"
| "slice_bytes (JsBuffer b) = b"
| "slice_bytes v = []"

fun text_copy :: "js_value \<Rightarrow> byte list list" where
  "text_copy (JsString s) = [Utf8Value s]"
| "text_copy v = []"

text \<open>
  The options and the callback among the arguments that follow the required ones.
\<close>

definition write_options :: "js_value list \<Rightarrow> WriteOptions" where
  "write_options rest =
     (if has_options rest 0 then JsToWriteOptions (arg rest 0) else WriteOptions_default)"

definition trailing_callback :: "js_value list \<Rightarrow> js_function option" where
  "trailing_callback rest = opt_callback rest (if has_options rest 0 then 1 else 0)"

definition open_options :: "js_value list \<Rightarrow> Options" where
  "open_options rest =
     (if has_options rest 0 then JsToOptions (arg rest 0) else Options_default)"

text \<open>
  The specification's reading of \<^verbatim>\<open>put\<close> and \<^verbatim>\<open>del\<close>: a fresh batch with the single entry
  is built and submitted through \<^verbatim>\<open>write\<close>; and the one difference, that the request
  dispatched last owns its batch.
\<close>

definition single_batch :: "batch_entry \<Rightarrow> byte list list \<Rightarrow> WriteBatch" where
  "single_batch entry strs = \<lparr>wb = [entry], strings = strs\<rparr>"

definition write_single :: "batch_entry \<Rightarrow> byte list list \<Rightarrow> js_value list \<Rightarrow> world \<Rightarrow> js_result \<times> world" where
  "write_single entry strs rest w =
     DB_Write (JsWriteBatch (next_batch w) # rest) (new_WriteBatch (single_batch entry strs) w)"

fun own_last :: "request list \<Rightarrow> request list" where
  "own_last [] = []"
| "own_last [WriteReq p] = [WriteReq (p\<lparr>disposeWriteBatch := True\<rparr>)]"
| "own_last (r # rs) = r # own_last rs"

definition own_newest :: "world \<Rightarrow> world" where
  "own_newest w = w\<lparr>pending := own_last (pending w)\<rparr>"

text \<open>
  The reference discipline: the binding object's count and the event loop's count each
  exceed their base by the number of requests in flight, as many bundles were built as
  were destroyed or are in flight, and no bundle was built or destroyed on a worker.
\<close>

definition bundle_events_on :: "thread \<Rightarrow> world \<Rightarrow> nat" where
  "bundle_events_on t w =
     length (filter (\<lambda>x. fst x = t \<and> (snd x = Params_new \<or> snd x = Params_delete)) (trace w))"

definition balanced :: "int \<Rightarrow> int \<Rightarrow> world \<Rightarrow> bool" where
  "balanced r0 l0 w =
     (refs w = r0 + int (in_flight w) \<and> loop_refs w = l0 + int (in_flight w)
      \<and> occurrences Params_new w = occurrences Params_delete w + in_flight w
      \<and> bundle_events_on WorkerThread w = 0)"

definition counters :: "world \<Rightarrow> int \<times> int \<times> nat \<times> nat \<times> nat \<times> nat" where
  "counters w = (refs w, loop_refs w, in_flight w, occurrences Params_new w,
                 occurrences Params_delete w, bundle_events_on WorkerThread w)"

definition dispatched :: "world \<Rightarrow> world \<Rightarrow> bool" where
  "dispatched w w' =
     (counters w' = (refs w + 1, loop_refs w + 1, in_flight w + 1, occurrences Params_new w + 1,
                     occurrences Params_delete w, bundle_events_on WorkerThread w))"

text \<open>
  More example worlds: a put executed and not yet completed, after an open that has
  completed; an open handle on a store holding bytes that are no UTF-8; and a get
  executed on it and not yet completed.
\<close>

definition busy_world :: world where
  "busy_world =
     run [Invoke M_open [JsString [0x64]], Work (Opened empty_engine) 0,
          Invoke M_put [JsString [0x6B], JsString [0x76], JsFunction (Fn 6 False)],
          Finish 0, Work (OpenFailed OK) 0] initial_world"

definition stocked_world :: world where
  "stocked_world =
     initial_world\<lparr>db := Some \<lparr>dbname = [], contents = [[0x6B] \<mapsto> [0xFF, 0x61]]\<rparr>\<rparr>"

definition read_world :: world where
  "read_world =
     run [Invoke M_get [JsBuffer [0x6B], JsFunction (Fn 1 False)], Work (OpenFailed OK) 0]
       stocked_world"

section \<open>Properties\<close>

subsection \<open>Traces and callback invocations\<close>

lemma trace_Params_dtor:
  "trace (Params_dtor w) =
     trace w @ (if refs w \<le> 0 then [(CallerThread, Faulted UnrefAtZero)] else [])
       @ [(CallerThread, Params_delete)]"
  by (simp add: Params_dtor_def Unref_def ev_unref_def log_event_def)

lemma calls_Params_dtor: "calls (Params_dtor w) = calls w"
  by (simp add: calls_def trace_Params_dtor List.map_filter_def)

lemma trace_Callback:
  "trace (Callback p res w) =
     trace w @ (case callback p of None \<Rightarrow> []
       | Some f \<Rightarrow> (CallerThread, Call f JsDB (callback_argv (status p) res))
           # (if fn_throws f then [(CallerThread, FatalException)] else []))"
  by (simp add: Callback_def log_event_def Let_def split: option.splits)

lemma calls_Callback:
  "calls (Callback p res w) =
     calls w @ (case callback p of None \<Rightarrow> [] | Some f \<Rightarrow> [(f, callback_argv (status p) res)])"
  by (simp add: calls_def trace_Callback List.map_filter_def split: option.splits)

lemma calls_delete_WriteBatch: "calls (delete_WriteBatch a w) = calls w"
  by (simp add: calls_def delete_WriteBatch_def log_event_def List.map_filter_def)

lemma calls_after:
  "calls (after r w) =
     calls w @ (case req_callback r of None \<Rightarrow> []
                | Some f \<Rightarrow> [(f, callback_argv (req_status r) (payload r))])"
  by (cases r)
     (simp_all add: after_def EIO_AfterOpen_def EIO_AfterClose_def EIO_AfterWrite_def
        EIO_AfterRead_def calls_Params_dtor calls_Callback calls_delete_WriteBatch Let_def
        split: option.splits)

subsection \<open>The scheduler\<close>

lemma remove_nth_last: "remove_nth (length xs) (xs @ [x]) = xs"
  by (simp add: remove_nth_def)

lemma execute_queues:
  "pending (snd (execute ans r w)) = pending w \<and> executed (snd (execute ans r w)) = executed w"
  by (cases r)
     (auto simp: execute_def EIO_Open_def EIO_Close_def EIO_Write_def EIO_Read_def
        delete_db_def log_event_def Let_def leveldb_Write_def leveldb_Get_def
        split: option.splits open_answer.splits prod.splits)

lemma run_newest_eio_custom:
  "run_newest ans (eio_custom r w) =
     after (fst (execute ans r (log_event CallerThread Eio_custom w)))
           (snd (execute ans r (log_event CallerThread Eio_custom w)))"
proof -
  let ?w0 = "log_event CallerThread Eio_custom w"
  obtain r' w' where ex: "execute ans r ?w0 = (r', w')" by (cases "execute ans r ?w0")
  from execute_queues [of ans r ?w0] ex
  have q: "pending w' = pending w" "executed w' = executed w"
    by (simp_all add: log_event_def)
  have w0: "(eio_custom r w)\<lparr>pending := pending w\<rparr> = ?w0"
    by (simp add: eio_custom_def log_event_def)
  have e1: "eio_execute ans (length (pending w)) (eio_custom r w) = w'\<lparr>executed := executed w @ [r']\<rparr>"
    using ex q w0
    by (simp add: eio_execute_def eio_custom_def remove_nth_last log_event_def)
  have id: "w'\<lparr>executed := executed w\<rparr> = w'"
    by (simp add: q(2) [symmetric])
  have "run_newest ans (eio_custom r w) = after r' w'"
    by (simp add: run_newest_def eio_custom_def log_event_def
          e1 [unfolded eio_custom_def log_event_def] eio_complete_def remove_nth_last id)
  then show ?thesis by (simp add: ex)
qed

lemma trace_delete_WriteBatch:
  "trace (delete_WriteBatch a w) = trace w @ [(CallerThread, WriteBatch_delete a)]"
  by (simp add: delete_WriteBatch_def log_event_def)

lemma refs_Callback: "refs (Callback p res w) = refs w"
  by (simp add: Callback_def log_event_def Let_def split: option.splits)

lemma refs_delete_WriteBatch: "refs (delete_WriteBatch a w) = refs w"
  by (simp add: delete_WriteBatch_def log_event_def)

lemma trace_after:
  "trace (after r w) =
     trace w @ callback_events (req_callback r) (callback_argv (req_status r) (payload r))
       @ dispose_events r
       @ (if refs w \<le> 0 then [(CallerThread, Faulted UnrefAtZero)] else [])
       @ [(CallerThread, Params_delete)]"
  by (cases r)
     (simp_all add: after_def EIO_AfterOpen_def EIO_AfterClose_def EIO_AfterWrite_def
        EIO_AfterRead_def trace_Params_dtor trace_Callback trace_delete_WriteBatch
        refs_Callback refs_delete_WriteBatch callback_events_def Let_def)

lemma occurrences_append:
  "trace w' = trace w @ es \<Longrightarrow>
     occurrences e w' = occurrences e w + length (filter (\<lambda>x. snd x = e) es)"
  by (simp add: occurrences_def)

lemma after_queues:
  "pending (after r w) = pending w \<and> executed (after r w) = executed w"
  by (cases r)
     (simp_all add: after_def EIO_AfterOpen_def EIO_AfterClose_def EIO_AfterWrite_def
        EIO_AfterRead_def Params_dtor_def Unref_def ev_unref_def log_event_def Callback_def
        delete_WriteBatch_def Let_def split: option.splits)

lemma execute_null_handle:
  assumes "db w = None" "is_get_or_write r"
  shows "execute ans r w = (r, w)"
  using assms by (cases r) (simp_all add: execute_def EIO_Read_def EIO_Write_def)

lemma closed_under_get_eq:
  "closed_under_get =
     \<lparr>db = None, refs = 2, loop_refs = 2, batches = Map.empty, next_batch = 0,
      pending = [ReadReq (new_ReadParams [0x6B] ReadOptions_default (Some (Fn 5 False))
                   (Some [[], [0x6B]]))],
      executed = [CloseReq (new_Params None)],
      trace = [(CallerThread, Params_new), (CallerThread, Eio_custom),
               (CallerThread, Params_new), (CallerThread, Eio_custom),
               (WorkerThread, Leveldb_delete empty_engine)]\<rparr>"
  by (simp add: closed_under_get_def run_def open_world_def initial_world_def DB_Get_def
        DB_Close_def arg_def has_options_def opt_callback_def Params_ctor_def Ref_def ev_ref_def
        log_event_def eio_custom_def eio_execute_def execute_def EIO_Close_def delete_db_def
        remove_nth_def Utf8Value_def utf8_char_def scalar_value_def Let_def)

subsection \<open>Calls on a closed handle\<close>

text \<open>
  Claim C1, as amended. Called while the handle is null, \<^verbatim>\<open>put\<close>, \<^verbatim>\<open>del\<close> and \<^verbatim>\<open>write\<close>
  throw "DB has not been opened" whatever their arguments, and \<^verbatim>\<open>get\<close> does so when its
  key is text or a buffer (it tests the key first and throws a type error otherwise). In
  each case the world is left as it was: no bundle is built, nothing is queued, so no
  worker function runs for the call.
\<close>

theorem closed_handle_guard:
  assumes "db w = None"
  shows "DB_Put args w = (Thrown (JsError ''DB has not been opened''), w)
       \<and> DB_Del args w = (Thrown (JsError ''DB has not been opened''), w)
       \<and> DB_Write args w = (Thrown (JsError ''DB has not been opened''), w)
       \<and> DB_Get args w =
           (Thrown (if string_or_buffer (arg args 0) then JsError ''DB has not been opened''
                    else JsTypeError ''DB.get() expects key''), w)"
  using assms
  by (auto simp: DB_Put_def DB_Del_def DB_Write_def DB_Get_def not_opened_def
        string_or_buffer_def arg_def)

theorem closed_handle_guard_witness:
  "db initial_world = None
   \<and> DB_Put [JsString [0x6B], JsBuffer [0x76]] initial_world
       = (Thrown (JsError ''DB has not been opened''), initial_world)
   \<and> DB_Get [JsString [0x6B]] initial_world
       = (Thrown (JsError ''DB has not been opened''), initial_world)"
  using closed_handle_guard [of initial_world "[JsString [0x6B], JsBuffer [0x76]]"]
        closed_handle_guard [of initial_world "[JsString [0x6B]]"]
  by (simp add: initial_world_def string_or_buffer_def arg_def)

text \<open>
  The claim as stated fails for \<^verbatim>\<open>get\<close>: with a key that is neither text nor a buffer,
  the call on a closed handle throws the type error, not "DB has not been opened".
\<close>

theorem closed_handle_guard_counterexample:
  "db initial_world = None
   \<and> DB_Get [JsNumber 7] initial_world
       = (Thrown (JsTypeError ''DB.get() expects key''), initial_world)
   \<and> fst (DB_Get [JsNumber 7] initial_world) \<noteq> Thrown (JsError ''DB has not been opened'')"
  by (simp add: DB_Get_def arg_def initial_world_def)

text \<open>
  \<^verbatim>\<open>newIterator\<close> has no test of the handle: on a closed handle it dereferences null.
\<close>

lemma NewIterator_closed_handle:
  "DB_NewIterator [JsObject []] initial_world
     = (Crashed NullDereference, log_event CallerThread (Faulted NullDereference) initial_world)"
  by (simp add: DB_NewIterator_def arg_def initial_world_def)

subsection \<open>A worker that finds the handle null\<close>

text \<open>
  Claim C3. When a get or a write is executed while the handle is null, the worker
  changes neither the bundle (status and result stay as dispatched) nor the world, and
  does not fault; the request then completes like any other: its completion path runs
  once, calling the callback once when there is one, destroying the bundle once, and
  the request is gone from the queues.
\<close>

theorem null_handle_worker:
  assumes "db w = None" and "i < length (pending w)" and "pending w ! i = r"
    and "is_get_or_write r"
  shows "eio_execute ans i w = w\<lparr>pending := remove_nth i (pending w), executed := executed w @ [r]\<rparr>
       \<and> eio_complete (length (executed w)) (eio_execute ans i w)
           = after r (w\<lparr>pending := remove_nth i (pending w)\<rparr>)
       \<and> calls (eio_complete (length (executed w)) (eio_execute ans i w))
           = calls w @ (case req_callback r of None \<Rightarrow> []
                        | Some f \<Rightarrow> [(f, callback_argv (req_status r) (payload r))])
       \<and> occurrences Params_delete (eio_complete (length (executed w)) (eio_execute ans i w))
           = occurrences Params_delete w + 1
       \<and> in_flight (eio_complete (length (executed w)) (eio_execute ans i w)) + 1 = in_flight w"
proof -
  let ?w0 = "w\<lparr>pending := remove_nth i (pending w)\<rparr>"
  have ex: "execute ans r ?w0 = (r, ?w0)"
    using assms by (simp add: execute_null_handle)
  have e1: "eio_execute ans i w = w\<lparr>pending := remove_nth i (pending w), executed := executed w @ [r]\<rparr>"
    using assms ex by (simp add: eio_execute_def)
  have e2: "eio_complete (length (executed w)) (eio_execute ans i w) = after r ?w0"
    by (simp add: e1 eio_complete_def remove_nth_last)
  have c: "calls ?w0 = calls w" by (simp add: calls_def)
  have o: "occurrences Params_delete ?w0 = occurrences Params_delete w"
    by (simp add: occurrences_def)
  have d: "occurrences Params_delete (after r ?w0) = occurrences Params_delete ?w0 + 1"
    using assms(4)
    by (cases r) (simp_all add: occurrences_append [OF trace_after] callback_events_def
        split: option.splits)
  have n: "length (remove_nth i (pending w)) + 1 = length (pending w)"
    using assms(2) by (simp add: remove_nth_def)
  have f: "in_flight (after r ?w0) + 1 = in_flight w"
    using n by (simp add: in_flight_def after_queues)
  show ?thesis
    unfolding e2 using e1 c o d f by (simp add: calls_after)
qed

theorem null_handle_worker_witness:
  "db closed_under_get = None \<and> 0 < length (pending closed_under_get)
   \<and> is_get_or_write (pending closed_under_get ! 0)
   \<and> calls (eio_complete (length (executed closed_under_get))
              (eio_execute (OpenFailed OK) 0 closed_under_get))
       = [(Fn 5 False, [JsNull, JsString []])]
   \<and> occurrences Params_delete (eio_complete (length (executed closed_under_get))
              (eio_execute (OpenFailed OK) 0 closed_under_get)) = 1"
proof -
  have pre: "db closed_under_get = None" "0 < length (pending closed_under_get)"
    "is_get_or_write (pending closed_under_get ! 0)"
    by (simp_all add: closed_under_get_eq)
  note t = null_handle_worker [OF pre(1) pre(2) refl pre(3), of "OpenFailed OK"]
  have c: "calls (eio_complete (length (executed closed_under_get))
              (eio_execute (OpenFailed OK) 0 closed_under_get))
       = calls closed_under_get @ (case req_callback (pending closed_under_get ! 0) of None \<Rightarrow> []
            | Some f \<Rightarrow> [(f, callback_argv (req_status (pending closed_under_get ! 0))
                               (payload (pending closed_under_get ! 0)))])"
    using t by blast
  have d: "occurrences Params_delete (eio_complete (length (executed closed_under_get))
              (eio_execute (OpenFailed OK) 0 closed_under_get))
       = occurrences Params_delete closed_under_get + 1"
    using t by blast
  show ?thesis
    unfolding c d using pre
    by (simp add: closed_under_get_eq calls_def occurrences_def new_ReadParams_def
          callback_argv_def List.map_filter_def)
qed

subsection \<open>Open and close\<close>

lemma open_dispatch:
  "DB_Open (JsString s # rest) w =
     (Returned JsDB,
      eio_custom (OpenReq (new_OpenParams (c_str (Utf8Value s)) (open_options rest) (trailing_callback rest)))
        (Params_ctor w))"
  by (simp add: DB_Open_def Let_def arg_def has_options_def opt_callback_def
        open_options_def trailing_callback_def)

lemma run_open:
  assumes "0 \<le> refs w"
  shows "run_newest answer (snd (DB_Open (JsString s # rest) w)) =
     w\<lparr>db := (case answer of Opened e' \<Rightarrow> Some e' | OpenFailed st \<Rightarrow> None),
       trace := trace w @ [(CallerThread, Params_new), (CallerThread, Eio_custom)]
         @ (case db w of None \<Rightarrow> [] | Some e \<Rightarrow> [(WorkerThread, Leveldb_delete e)])
         @ [(WorkerThread, Leveldb_Open (open_options rest) (c_str (Utf8Value s)))]
         @ callback_events (trailing_callback rest)
             (callback_argv (case answer of Opened e' \<Rightarrow> OK | OpenFailed st \<Rightarrow> st) None)
         @ [(CallerThread, Params_delete)]\<rparr>"
  using assms
  by (cases answer; cases "db w"; cases "trailing_callback rest")
     (simp_all add: open_dispatch run_newest_eio_custom execute_def EIO_Open_def after_def
        EIO_AfterOpen_def Params_ctor_def Params_dtor_def Ref_def Unref_def ev_ref_def
        ev_unref_def log_event_def delete_db_def Callback_def callback_events_def
        new_OpenParams_def Let_def)

text \<open>
  Claim C5. An open executed on an open handle first destroys the engine instance that
  is there, then asks the engine to open; on success the handle is the new instance and
  the status is OK, on failure the handle is null and the status is the failure. Run
  alone from the call of \<^verbatim>\<open>open\<close>, it ends with the callback called on that status; the
  engine is asked for the file name as a C string, the UTF-8 bytes of the first argument
  up to their first NUL.
\<close>

theorem open_replaces_engine:
  assumes "db w = Some e" and "0 \<le> refs w"
  shows "EIO_Open answer p w =
           (p\<lparr>status := (case answer of Opened e' \<Rightarrow> OK | OpenFailed st \<Rightarrow> st)\<rparr>,
            w\<lparr>db := (case answer of Opened e' \<Rightarrow> Some e' | OpenFailed st \<Rightarrow> None),
              trace := trace w @ [(WorkerThread, Leveldb_delete e),
                                  (WorkerThread, Leveldb_Open (options p) (name p))]\<rparr>)
       \<and> run_newest answer (snd (DB_Open (JsString s # rest) w)) =
           w\<lparr>db := (case answer of Opened e' \<Rightarrow> Some e' | OpenFailed st \<Rightarrow> None),
             trace := trace w @ [(CallerThread, Params_new), (CallerThread, Eio_custom),
                 (WorkerThread, Leveldb_delete e),
                 (WorkerThread, Leveldb_Open (open_options rest) (c_str (Utf8Value s)))]
               @ callback_events (trailing_callback rest)
                   (callback_argv (case answer of Opened e' \<Rightarrow> OK | OpenFailed st \<Rightarrow> st) None)
               @ [(CallerThread, Params_delete)]\<rparr>"
proof -
  have A: "EIO_Open answer p w =
           (p\<lparr>status := (case answer of Opened e' \<Rightarrow> OK | OpenFailed st \<Rightarrow> st)\<rparr>,
            w\<lparr>db := (case answer of Opened e' \<Rightarrow> Some e' | OpenFailed st \<Rightarrow> None),
              trace := trace w @ [(WorkerThread, Leveldb_delete e),
                                  (WorkerThread, Leveldb_Open (options p) (name p))]\<rparr>)"
    using assms(1)
    by (cases answer) (simp_all add: EIO_Open_def delete_db_def log_event_def Let_def)
  show ?thesis
    using A assms(1) by (simp add: run_open [OF assms(2)])
qed

theorem open_replaces_engine_witness:
  "db open_world = Some empty_engine \<and> 0 \<le> refs open_world
   \<and> run_newest (OpenFailed (IOError ''lock''))
         (snd (DB_Open [JsString [0x64], JsFunction (Fn 7 False)] open_world))
       = open_world\<lparr>db := None,
           trace := [(CallerThread, Params_new), (CallerThread, Eio_custom),
                     (WorkerThread, Leveldb_delete empty_engine),
                     (WorkerThread, Leveldb_Open Options_default [0x64]),
                     (CallerThread, Call (Fn 7 False) JsDB [JsError ''IO error: lock'']),
                     (CallerThread, Params_delete)]\<rparr>
   \<and> run_newest (Opened \<lparr>dbname = [0x64], contents = Map.empty\<rparr>)
         (snd (DB_Open [JsString [0x64, 0x00, 0x62], JsFunction (Fn 7 False)] open_world))
       = open_world\<lparr>db := Some \<lparr>dbname = [0x64], contents = Map.empty\<rparr>,
           trace := [(CallerThread, Params_new), (CallerThread, Eio_custom),
                     (WorkerThread, Leveldb_delete empty_engine),
                     (WorkerThread, Leveldb_Open Options_default [0x64]),
                     (CallerThread, Call (Fn 7 False) JsDB []),
                     (CallerThread, Params_delete)]\<rparr>"
proof -
  have h: "db open_world = Some empty_engine" "0 \<le> refs open_world"
    by (simp_all add: open_world_def initial_world_def)
  note t1 = open_replaces_engine [OF h, of "OpenFailed (IOError ''lock'')" _ "[0x64]"
      "[JsFunction (Fn 7 False)]", THEN conjunct2]
  note t2 = open_replaces_engine [OF h, of "Opened \<lparr>dbname = [0x64], contents = Map.empty\<rparr>" _
      "[0x64, 0x00, 0x62]" "[JsFunction (Fn 7 False)]", THEN conjunct2]
  show ?thesis
    using h unfolding t1 t2
    by (simp add: open_world_def initial_world_def callback_events_def callback_argv_def
          trailing_callback_def open_options_def opt_callback_def has_options_def arg_def
          Utf8Value_def utf8_char_def scalar_value_def c_str_def c_chars_def)
qed

text \<open>
  Claim C6. A close, dispatched and run, leaves the handle null: an open handle's engine
  instance is destroyed, a closed handle is left alone. Either way the status stays OK
  and the callback, when given, is called with no arguments.
\<close>

theorem close_semantics:
  assumes "0 \<le> refs w"
  shows "fst (DB_Close args w) = Returned JsDB
       \<and> run_newest ans (snd (DB_Close args w)) =
           w\<lparr>db := None,
             trace := trace w @ [(CallerThread, Params_new), (CallerThread, Eio_custom)]
               @ (case db w of None \<Rightarrow> [] | Some e \<Rightarrow> [(WorkerThread, Leveldb_delete e)])
               @ callback_events (opt_callback args 0) []
               @ [(CallerThread, Params_delete)]\<rparr>"
  using assms
  by (cases "db w"; cases "opt_callback args 0")
     (simp_all add: DB_Close_def run_newest_eio_custom execute_def EIO_Close_def after_def
        EIO_AfterClose_def Params_ctor_def Params_dtor_def Ref_def Unref_def ev_ref_def
        ev_unref_def log_event_def delete_db_def Callback_def callback_events_def
        callback_argv_def new_Params_def Let_def)

theorem close_semantics_witness:
  "0 \<le> refs open_world
   \<and> run_newest (OpenFailed OK) (snd (DB_Close [JsFunction (Fn 4 False)] open_world))
       = open_world\<lparr>db := None,
           trace := [(CallerThread, Params_new), (CallerThread, Eio_custom),
                     (WorkerThread, Leveldb_delete empty_engine),
                     (CallerThread, Call (Fn 4 False) JsDB []),
                     (CallerThread, Params_delete)]\<rparr>
   \<and> 0 \<le> refs initial_world
   \<and> run_newest (OpenFailed OK) (snd (DB_Close [JsFunction (Fn 4 False)] initial_world))
       = initial_world\<lparr>
           trace := [(CallerThread, Params_new), (CallerThread, Eio_custom),
                     (CallerThread, Call (Fn 4 False) JsDB []),
                     (CallerThread, Params_delete)]\<rparr>"
  using close_semantics [of open_world "[JsFunction (Fn 4 False)]" "OpenFailed OK"]
        close_semantics [of initial_world "[JsFunction (Fn 4 False)]" "OpenFailed OK"]
  by (simp add: open_world_def initial_world_def callback_events_def opt_callback_def arg_def)

subsection \<open>An exception in the callback\<close>

text \<open>
  Claim C7. When the completion callback throws, the completion path reports a fatal
  exception right after the call; it reports none when the callback returns.
\<close>

theorem callback_exception_is_fatal:
  assumes "req_callback r = Some f"
  shows "occurrences FatalException (after r w)
           = occurrences FatalException w + (if fn_throws f then 1 else 0)
         \<and> (\<exists>rest. trace (after r w) =
               trace w @ (CallerThread, Call f JsDB (callback_argv (req_status r) (payload r)))
                 # (if fn_throws f then [(CallerThread, FatalException)] else []) @ rest)"
proof
  show "occurrences FatalException (after r w)
           = occurrences FatalException w + (if fn_throws f then 1 else 0)"
    using assms
    by (cases r) (simp_all add: occurrences_append [OF trace_after] callback_events_def)
  show "\<exists>rest. trace (after r w) =
               trace w @ (CallerThread, Call f JsDB (callback_argv (req_status r) (payload r)))
                 # (if fn_throws f then [(CallerThread, FatalException)] else []) @ rest"
    using assms by (simp add: trace_after callback_events_def)
qed

theorem callback_exception_is_fatal_witness:
  "req_callback (CloseReq (new_Params (Some (Fn 3 True)))) = Some (Fn 3 True)
   \<and> occurrences FatalException (after (CloseReq (new_Params (Some (Fn 3 True)))) initial_world) = 1"
  using callback_exception_is_fatal [of "CloseReq (new_Params (Some (Fn 3 True)))" "Fn 3 True"
          initial_world]
  by (simp add: new_Params_def occurrences_def initial_world_def)

subsection \<open>References held by requests in flight\<close>

lemma counters_log_other:
  "e \<noteq> Params_new \<Longrightarrow> e \<noteq> Params_delete \<Longrightarrow> counters (log_event t e w) = counters w"
  by (simp add: counters_def log_event_def in_flight_def occurrences_def bundle_events_on_def)

lemma dispatched_eio_custom:
  "counters w1 = counters w \<Longrightarrow> dispatched w (eio_custom r (Params_ctor w1))"
  by (simp add: dispatched_def counters_def eio_custom_def Params_ctor_def Ref_def ev_ref_def
        log_event_def in_flight_def occurrences_def bundle_events_on_def)

lemma counters_new_WriteBatch: "counters (new_WriteBatch b w) = counters w"
  by (simp add: new_WriteBatch_def counters_def log_event_def in_flight_def occurrences_def
        bundle_events_on_def)

lemma invoke_counters:
  "counters (snd (invoke m args w)) = counters w \<or> dispatched w (snd (invoke m args w))"
proof (cases m)
  case M_open
  then show ?thesis
    by (auto simp: DB_Open_def Let_def dispatched_eio_custom split: js_value.splits)
next
  case M_close
  then show ?thesis by (simp add: DB_Close_def Let_def dispatched_eio_custom)
next
  case M_put
  then show ?thesis
    by (simp add: DB_Put_def Let_def dispatched_eio_custom counters_new_WriteBatch
          split: prod.splits)
next
  case M_del
  then show ?thesis
    by (simp add: DB_Del_def Let_def dispatched_eio_custom counters_new_WriteBatch
          split: prod.splits)
next
  case M_write
  then show ?thesis
    by (auto simp: DB_Write_def Let_def dispatched_eio_custom counters_log_other
          split: js_value.splits)
next
  case M_get
  then show ?thesis
    by (simp add: DB_Get_def Let_def dispatched_eio_custom split: prod.splits)
next
  case M_newIterator
  then show ?thesis
    by (auto simp: DB_NewIterator_def counters_log_other split: option.splits)
qed

lemma execute_counters_parts:
  "refs (snd (execute ans r w)) = refs w \<and> loop_refs (snd (execute ans r w)) = loop_refs w
   \<and> occurrences Params_new (snd (execute ans r w)) = occurrences Params_new w
   \<and> occurrences Params_delete (snd (execute ans r w)) = occurrences Params_delete w
   \<and> bundle_events_on WorkerThread (snd (execute ans r w)) = bundle_events_on WorkerThread w"
  by (cases r)
     (auto simp: execute_def EIO_Open_def EIO_Close_def EIO_Write_def EIO_Read_def
        delete_db_def log_event_def Let_def leveldb_Write_def leveldb_Get_def occurrences_def
        bundle_events_on_def
        split: option.splits open_answer.splits prod.splits)

lemma length_remove_nth: "i < length xs \<Longrightarrow> length (remove_nth i xs) + 1 = length xs"
  by (simp add: remove_nth_def)

lemma counters_eio_execute: "counters (eio_execute ans i w) = counters w"
proof (cases "i < length (pending w)")
  case False
  then show ?thesis by (simp add: eio_execute_def)
next
  case True
  let ?w0 = "w\<lparr>pending := remove_nth i (pending w)\<rparr>"
  obtain r' w' where ex: "execute ans (pending w ! i) ?w0 = (r', w')"
    by (cases "execute ans (pending w ! i) ?w0")
  have q: "pending w' = remove_nth i (pending w)" "executed w' = executed w"
    using execute_queues [of ans "pending w ! i" ?w0] ex by simp_all
  have c: "refs w' = refs w" "loop_refs w' = loop_refs w"
    "occurrences Params_new w' = occurrences Params_new w"
    "occurrences Params_delete w' = occurrences Params_delete w"
    "bundle_events_on WorkerThread w' = bundle_events_on WorkerThread w"
    using execute_counters_parts [of ans "pending w ! i" ?w0] ex
    by (simp_all add: occurrences_def bundle_events_on_def)
  have e: "eio_execute ans i w = w'\<lparr>executed := executed w' @ [r']\<rparr>"
    using True ex by (simp add: eio_execute_def)
  show ?thesis
    using length_remove_nth [OF True] q c
    by (simp add: e counters_def in_flight_def occurrences_def bundle_events_on_def)
qed

lemma after_counters:
  assumes "0 < refs w"
  shows "refs (after r w) = refs w - 1 \<and> loop_refs (after r w) = loop_refs w - 1
   \<and> occurrences Params_new (after r w) = occurrences Params_new w
   \<and> occurrences Params_delete (after r w) = occurrences Params_delete w + 1
   \<and> bundle_events_on WorkerThread (after r w) = bundle_events_on WorkerThread w"
  using assms
  by (cases r)
     (auto simp: after_def EIO_AfterOpen_def EIO_AfterClose_def EIO_AfterWrite_def
        EIO_AfterRead_def Params_dtor_def Unref_def ev_unref_def log_event_def Callback_def
        delete_WriteBatch_def Let_def occurrences_def bundle_events_on_def
        split: option.splits)

lemma balanced_step:
  assumes "balanced r0 l0 w" and "0 \<le> r0"
  shows "balanced r0 l0 (step w t)"
proof (cases t)
  case (Invoke m args)
  have "counters (snd (invoke m args w)) = counters w \<or> dispatched w (snd (invoke m args w))"
    by (rule invoke_counters)
  then show ?thesis
    using assms(1) Invoke by (auto simp: balanced_def counters_def dispatched_def)
next
  case (Work ans i)
  have "counters (eio_execute ans i w) = counters w" by (rule counters_eio_execute)
  then show ?thesis using assms(1) Work by (simp add: balanced_def counters_def)
next
  case (Finish i)
  show ?thesis
  proof (cases "i < length (executed w)")
    case False
    then show ?thesis using assms(1) Finish by (simp add: eio_complete_def)
  next
    case True
    let ?w0 = "w\<lparr>executed := remove_nth i (executed w)\<rparr>"
    have pos: "0 < refs ?w0"
      using assms True by (simp add: balanced_def in_flight_def)
    have n: "length (remove_nth i (executed w)) + 1 = length (executed w)"
      by (rule length_remove_nth [OF True])
    have e: "step w t = after (executed w ! i) ?w0"
      using True Finish by (simp add: eio_complete_def)
    show ?thesis
      using assms(1) n after_counters [OF pos, of "executed w ! i"]
        after_queues [of "executed w ! i" ?w0]
      by (simp add: e balanced_def in_flight_def occurrences_def bundle_events_on_def)
  qed
qed

lemma completion_releases:
  assumes "balanced r0 l0 w" and "0 \<le> r0" and "i < length (executed w)"
  shows "refs (eio_complete i w) = refs w - 1 \<and> loop_refs (eio_complete i w) = loop_refs w - 1
       \<and> trace (eio_complete i w) =
           trace w @ callback_events (req_callback (executed w ! i))
                       (callback_argv (req_status (executed w ! i)) (payload (executed w ! i)))
             @ dispose_events (executed w ! i) @ [(CallerThread, Params_delete)]"
proof -
  let ?w0 = "w\<lparr>executed := remove_nth i (executed w)\<rparr>"
  have pos: "0 < refs ?w0"
    using assms by (simp add: balanced_def in_flight_def)
  have e: "eio_complete i w = after (executed w ! i) ?w0"
    using assms(3) by (simp add: eio_complete_def)
  show ?thesis
    unfolding e using pos after_counters [OF pos, of "executed w ! i"]
    by (simp add: trace_after)
qed

lemma busy_world_eq:
  "busy_world =
     \<lparr>db = Some (empty_engine\<lparr>contents := [[0x6B] \<mapsto> [0x76]]\<rparr>), refs = 1, loop_refs = 1,
      batches = [0 \<mapsto> \<lparr>wb = [PutEntry [0x6B] [0x76]], strings = [[0x6B], [0x76]]\<rparr>],
      next_batch = 1, pending = [],
      executed = [WriteReq \<lparr>callback = Some (Fn 6 False), status = OK, writeBatch = 0,
                    woptions = WriteOptions_default, disposeWriteBatch = True\<rparr>],
      trace = [(CallerThread, Params_new), (CallerThread, Eio_custom),
               (WorkerThread, Leveldb_Open Options_default [0x64]),
               (CallerThread, WriteBatch_new 0), (CallerThread, Params_new),
               (CallerThread, Eio_custom), (CallerThread, Params_delete),
               (WorkerThread, Leveldb_Write [PutEntry [0x6B] [0x76]])]\<rparr>"
  by (simp add: busy_world_def run_def initial_world_def empty_engine_def DB_Open_def DB_Put_def
        arg_def has_options_def opt_callback_def Params_ctor_def Params_dtor_def Ref_def Unref_def
        ev_ref_def ev_unref_def log_event_def eio_custom_def eio_execute_def eio_complete_def
        execute_def after_def EIO_Open_def EIO_AfterOpen_def EIO_Write_def delete_db_def
        Callback_def remove_nth_def Utf8Value_def utf8_char_def scalar_value_def c_str_def
        new_OpenParams_def
        new_WriteParams_def new_WriteBatch_def owned_def leveldb_Write_def Let_def)

text \<open>
  Claim C8. Whatever JavaScript calls and however the requests are scheduled, every
  request in flight accounts for exactly one reference on the binding object and one on
  the event loop, from the construction of its bundle at dispatch to the bundle's
  destruction at completion. Completing a request releases one of each, once, after the
  callback has run; bundles are built and destroyed on the caller thread only.
\<close>

theorem reference_discipline:
  assumes "balanced r0 l0 w" and "0 \<le> r0"
  shows "balanced r0 l0 (run ts w)
       \<and> (\<forall>i. i < length (executed (run ts w)) \<longrightarrow>
            refs (eio_complete i (run ts w)) = refs (run ts w) - 1
          \<and> loop_refs (eio_complete i (run ts w)) = loop_refs (run ts w) - 1
          \<and> trace (eio_complete i (run ts w)) =
              trace (run ts w)
                @ callback_events (req_callback (executed (run ts w) ! i))
                    (callback_argv (req_status (executed (run ts w) ! i))
                       (payload (executed (run ts w) ! i)))
                @ dispose_events (executed (run ts w) ! i) @ [(CallerThread, Params_delete)])"
proof -
  have b: "balanced r0 l0 (run ts w)"
    using assms(1) unfolding run_def
  proof (induction ts arbitrary: w)
    case Nil
    then show ?case by simp
  next
    case (Cons t ts)
    then show ?case using balanced_step [OF _ assms(2)] by simp
  qed
  show ?thesis
    using b completion_releases [OF b assms(2)] by blast
qed

theorem reference_discipline_witness:
  "balanced 0 0 initial_world \<and> (0::int) \<le> 0
   \<and> balanced 0 0 busy_world \<and> refs busy_world = 1 \<and> loop_refs busy_world = 1
   \<and> in_flight busy_world = 1
   \<and> refs (eio_complete 0 busy_world) = 0 \<and> loop_refs (eio_complete 0 busy_world) = 0
   \<and> trace (eio_complete 0 busy_world) =
       trace busy_world @ [(CallerThread, Call (Fn 6 False) JsDB []),
                           (CallerThread, WriteBatch_delete 0), (CallerThread, Params_delete)]"
proof -
  have h: "balanced 0 0 initial_world"
    by (simp add: balanced_def initial_world_def in_flight_def occurrences_def
          bundle_events_on_def)
  note t = reference_discipline [OF h order_refl,
      of "[Invoke M_open [JsString [0x64]], Work (Opened empty_engine) 0,
          Invoke M_put [JsString [0x6B], JsString [0x76], JsFunction (Fn 6 False)],
          Finish 0, Work (OpenFailed OK) 0]", folded busy_world_def]
  have b: "balanced 0 0 busy_world" using t by blast
  have l: "0 < length (executed busy_world)" by (simp add: busy_world_eq)
  have c: "refs (eio_complete 0 busy_world) = refs busy_world - 1"
    "loop_refs (eio_complete 0 busy_world) = loop_refs busy_world - 1"
    "trace (eio_complete 0 busy_world) =
              trace busy_world
                @ callback_events (req_callback (executed busy_world ! 0))
                    (callback_argv (req_status (executed busy_world ! 0))
                       (payload (executed busy_world ! 0)))
                @ dispose_events (executed busy_world ! 0) @ [(CallerThread, Params_delete)]"
    using t l by blast+
  have v: "refs busy_world = 1" "loop_refs busy_world = 1" "in_flight busy_world = 1"
    by (simp_all add: busy_world_eq in_flight_def)
  have e: "callback_events (req_callback (executed busy_world ! 0))
                    (callback_argv (req_status (executed busy_world ! 0))
                       (payload (executed busy_world ! 0)))
                @ dispose_events (executed busy_world ! 0)
           = [(CallerThread, Call (Fn 6 False) JsDB []), (CallerThread, WriteBatch_delete 0)]"
    by (simp add: busy_world_eq callback_events_def callback_argv_def)
  show ?thesis
    using h b v e unfolding c by simp
qed

subsection \<open>Put and del as single-entry writes\<close>

lemma JsToSlice_Some: "JsToSlice v (Some ss) = (slice_bytes v, Some (ss @ text_copy v))"
  by (cases v) simp_all

lemma calls_log_other: "call_of (t, e) = None \<Longrightarrow> calls (log_event t e w) = calls w"
  by (simp add: calls_def log_event_def List.map_filter_def)

lemma calls_Params_ctor: "calls (Params_ctor w) = calls w"
  by (simp add: calls_def Params_ctor_def Ref_def ev_ref_def log_event_def List.map_filter_def)

lemma db_Params_ctor: "db (Params_ctor w) = db w"
  by (simp add: Params_ctor_def Ref_def ev_ref_def log_event_def)

lemma db_log_event: "db (log_event t e w) = db w"
  by (simp add: log_event_def)

lemma arg_Cons_Suc: "arg (x # xs) (Suc n) = arg xs n"
  by (simp add: arg_def)

lemma has_options_Cons_Suc: "has_options (x # xs) (Suc n) = has_options xs n"
  by (simp add: has_options_def arg_def)

lemma opt_callback_Cons_Suc: "opt_callback (x # xs) (Suc n) = opt_callback xs n"
  by (simp add: opt_callback_def arg_def)

lemma own_last_snoc: "own_last (xs @ [WriteReq p]) = xs @ [WriteReq (p\<lparr>disposeWriteBatch := True\<rparr>)]"
proof (induction xs)
  case Nil
  show ?case by simp
next
  case (Cons x xs)
  then show ?case by (cases xs; cases x) simp_all
qed

lemma own_newest_eio_custom:
  "own_newest (eio_custom (WriteReq p) w) = eio_custom (WriteReq (p\<lparr>disposeWriteBatch := True\<rparr>)) w"
  by (simp add: own_newest_def eio_custom_def log_event_def own_last_snoc)

lemma db_new_WriteBatch: "db (new_WriteBatch b w) = db w"
  by (simp add: new_WriteBatch_def log_event_def)

lemma write_dispatch:
  assumes "db w \<noteq> None"
  shows "DB_Write (JsWriteBatch a # rest) w =
     (Returned JsDB,
      eio_custom (WriteReq (new_WriteParams a (write_options rest) (trailing_callback rest)))
        (Params_ctor w))"
  using assms
  by (simp add: DB_Write_def Let_def arg_def has_options_def opt_callback_def
        write_options_def trailing_callback_def)

lemma put_dispatch:
  assumes "db w \<noteq> None" and "string_or_buffer k" and "string_or_buffer v"
  shows "DB_Put (k # v # rest) w =
     (Returned JsDB,
      eio_custom (WriteReq ((new_WriteParams (next_batch w) (write_options rest)
                    (trailing_callback rest))\<lparr>disposeWriteBatch := True\<rparr>))
        (Params_ctor (new_WriteBatch
           (single_batch (PutEntry (slice_bytes k) (slice_bytes v)) (text_copy k @ text_copy v)) w)))"
  using assms
  by (simp add: DB_Put_def Let_def JsToSlice_Some owned_def single_batch_def
        write_options_def trailing_callback_def numeral_2_eq_2 numeral_3_eq_3
        arg_Cons_Suc has_options_Cons_Suc opt_callback_Cons_Suc)
     (auto simp: string_or_buffer_def arg_def)

lemma del_dispatch:
  assumes "db w \<noteq> None" and "string_or_buffer k"
  shows "DB_Del (k # rest) w =
     (Returned JsDB,
      eio_custom (WriteReq ((new_WriteParams (next_batch w) (write_options rest)
                    (trailing_callback rest))\<lparr>disposeWriteBatch := True\<rparr>))
        (Params_ctor (new_WriteBatch
           (single_batch (DeleteEntry (slice_bytes k)) (text_copy k)) w)))"
  using assms
  by (simp add: DB_Del_def Let_def JsToSlice_Some owned_def single_batch_def
        write_options_def trailing_callback_def numeral_2_eq_2
        arg_Cons_Suc has_options_Cons_Suc opt_callback_Cons_Suc)
     (auto simp: string_or_buffer_def arg_def)

lemma write_single_dispatch:
  assumes "db w \<noteq> None"
  shows "write_single entry strs rest w =
     (Returned JsDB,
      eio_custom (WriteReq (new_WriteParams (next_batch w) (write_options rest)
                    (trailing_callback rest)))
        (Params_ctor (new_WriteBatch (single_batch entry strs) w)))"
  using assms by (simp add: write_single_def write_dispatch db_new_WriteBatch)

lemma execute_write:
  assumes "db w = Some e" and "batches w (writeBatch p) = Some b"
  shows "execute ans (WriteReq p) w =
     (WriteReq (p\<lparr>status := OK\<rparr>),
      (log_event WorkerThread (Leveldb_Write (wb b)) w)
        \<lparr>db := Some (e\<lparr>contents := foldl apply_entry (contents e) (wb b)\<rparr>)\<rparr>)"
  using assms by (simp add: execute_def EIO_Write_def leveldb_Write_def)

lemma run_single_write:
  assumes "db w = Some e" and "0 \<le> refs w"
  shows "run_newest ans
           (eio_custom (WriteReq ((new_WriteParams (next_batch w) opts cb)\<lparr>disposeWriteBatch := d\<rparr>))
              (Params_ctor (new_WriteBatch (single_batch entry strs) w)))
         = w\<lparr>db := Some (e\<lparr>contents := apply_entry (contents e) entry\<rparr>),
             batches := (if d then (batches w)(next_batch w := None)
                         else (batches w)(next_batch w \<mapsto> single_batch entry strs)),
             next_batch := Suc (next_batch w),
             trace := trace w @ [(CallerThread, WriteBatch_new (next_batch w)),
                 (CallerThread, Params_new), (CallerThread, Eio_custom),
                 (WorkerThread, Leveldb_Write [entry])]
               @ callback_events cb []
               @ (if d then [(CallerThread, WriteBatch_delete (next_batch w))] else [])
               @ [(CallerThread, Params_delete)]\<rparr>"
proof -
  let ?W = "log_event CallerThread Eio_custom (Params_ctor (new_WriteBatch (single_batch entry strs) w))"
  let ?p = "(new_WriteParams (next_batch w) opts cb)\<lparr>disposeWriteBatch := d\<rparr>"
  have d1: "db ?W = Some e"
    using assms(1) by (simp add: db_log_event db_Params_ctor db_new_WriteBatch)
  have b1: "batches ?W (writeBatch ?p) = Some (single_batch entry strs)"
    by (simp add: log_event_def Params_ctor_def Ref_def ev_ref_def new_WriteBatch_def
          new_WriteParams_def)
  have r: "run_newest ans (eio_custom (WriteReq ?p) (Params_ctor (new_WriteBatch (single_batch entry strs) w)))
      = after (WriteReq (?p\<lparr>status := OK\<rparr>))
          ((log_event WorkerThread (Leveldb_Write (wb (single_batch entry strs))) ?W)
             \<lparr>db := Some (e\<lparr>contents := foldl apply_entry (contents e)
                                   (wb (single_batch entry strs))\<rparr>)\<rparr>)"
    by (simp only: run_newest_eio_custom execute_write [OF d1 b1] fst_conv snd_conv)
  show ?thesis
    unfolding r using assms(2)
    by (cases cb; cases d)
       (simp_all add: after_def
          EIO_AfterWrite_def Callback_def callback_events_def callback_argv_def
          delete_WriteBatch_def Params_dtor_def Unref_def ev_unref_def log_event_def
          Params_ctor_def Ref_def ev_ref_def new_WriteBatch_def new_WriteParams_def
          single_batch_def Let_def)
qed

text \<open>
  Claim C4. On an open handle, \<^verbatim>\<open>put(k, v)\<close> does what \<^verbatim>\<open>write\<close> does with a fresh batch
  holding the single entry Put(k, v), and \<^verbatim>\<open>del(k)\<close> what it does with the single entry
  Delete(k), except that the request owns the batch. Run to completion, both leave the
  same engine contents and make the same callback call; the batch built inside is
  destroyed after the callback, the batch passed to \<^verbatim>\<open>write\<close> is still on the heap.
\<close>

theorem put_del_are_write_sugar:
  assumes "db w = Some e" and "0 \<le> refs w" and "string_or_buffer k" and "string_or_buffer v"
  shows "DB_Put (k # v # rest) w =
           (Returned JsDB,
            own_newest (snd (write_single (PutEntry (slice_bytes k) (slice_bytes v))
                               (text_copy k @ text_copy v) rest w)))
       \<and> DB_Del (k # rest) w =
           (Returned JsDB,
            own_newest (snd (write_single (DeleteEntry (slice_bytes k)) (text_copy k) rest w)))
       \<and> fst (write_single entry strs rest w) = Returned JsDB
       \<and> run_newest ans (own_newest (snd (write_single entry strs rest w)))
           = w\<lparr>db := Some (e\<lparr>contents := apply_entry (contents e) entry\<rparr>),
               batches := (batches w)(next_batch w := None),
               next_batch := Suc (next_batch w),
               trace := trace w @ [(CallerThread, WriteBatch_new (next_batch w)),
                   (CallerThread, Params_new), (CallerThread, Eio_custom),
                   (WorkerThread, Leveldb_Write [entry])]
                 @ callback_events (trailing_callback rest) []
                 @ [(CallerThread, WriteBatch_delete (next_batch w)),
                    (CallerThread, Params_delete)]\<rparr>
       \<and> run_newest ans (snd (write_single entry strs rest w))
           = w\<lparr>db := Some (e\<lparr>contents := apply_entry (contents e) entry\<rparr>),
               batches := (batches w)(next_batch w \<mapsto> single_batch entry strs),
               next_batch := Suc (next_batch w),
               trace := trace w @ [(CallerThread, WriteBatch_new (next_batch w)),
                   (CallerThread, Params_new), (CallerThread, Eio_custom),
                   (WorkerThread, Leveldb_Write [entry])]
                 @ callback_events (trailing_callback rest) []
                 @ [(CallerThread, Params_delete)]\<rparr>"
proof -
  have d: "db w \<noteq> None" using assms(1) by simp
  have p: "(new_WriteParams a opts cb)\<lparr>disposeWriteBatch := False\<rparr> = new_WriteParams a opts cb"
    for a opts cb by (simp add: new_WriteParams_def)
  have 1: "DB_Put (k # v # rest) w =
           (Returned JsDB,
            own_newest (snd (write_single (PutEntry (slice_bytes k) (slice_bytes v))
                               (text_copy k @ text_copy v) rest w)))"
    by (simp add: put_dispatch [OF d assms(3,4)] write_single_dispatch [OF d]
          own_newest_eio_custom)
  have 2: "DB_Del (k # rest) w =
           (Returned JsDB,
            own_newest (snd (write_single (DeleteEntry (slice_bytes k)) (text_copy k) rest w)))"
    by (simp add: del_dispatch [OF d assms(3)] write_single_dispatch [OF d]
          own_newest_eio_custom)
  have 3: "fst (write_single entry strs rest w) = Returned JsDB"
    by (simp add: write_single_dispatch [OF d])
  have 4: "run_newest ans (own_newest (snd (write_single entry strs rest w)))
           = w\<lparr>db := Some (e\<lparr>contents := apply_entry (contents e) entry\<rparr>),
               batches := (batches w)(next_batch w := None),
               next_batch := Suc (next_batch w),
               trace := trace w @ [(CallerThread, WriteBatch_new (next_batch w)),
                   (CallerThread, Params_new), (CallerThread, Eio_custom),
                   (WorkerThread, Leveldb_Write [entry])]
                 @ callback_events (trailing_callback rest) []
                 @ [(CallerThread, WriteBatch_delete (next_batch w)),
                    (CallerThread, Params_delete)]\<rparr>"
    by (simp add: write_single_dispatch [OF d] own_newest_eio_custom
          run_single_write [OF assms(1,2), where d = True])
  have 5: "run_newest ans (snd (write_single entry strs rest w))
           = w\<lparr>db := Some (e\<lparr>contents := apply_entry (contents e) entry\<rparr>),
               batches := (batches w)(next_batch w \<mapsto> single_batch entry strs),
               next_batch := Suc (next_batch w),
               trace := trace w @ [(CallerThread, WriteBatch_new (next_batch w)),
                   (CallerThread, Params_new), (CallerThread, Eio_custom),
                   (WorkerThread, Leveldb_Write [entry])]
                 @ callback_events (trailing_callback rest) []
                 @ [(CallerThread, Params_delete)]\<rparr>"
    using run_single_write [OF assms(1,2), where d = False and ans = ans and entry = entry
        and strs = strs and opts = "write_options rest" and cb = "trailing_callback rest"]
    by (simp add: write_single_dispatch [OF d] p)
  from 1 2 3 4 5 show ?thesis by blast
qed

theorem put_del_are_write_sugar_witness:
  "db open_world = Some empty_engine \<and> 0 \<le> refs open_world
   \<and> string_or_buffer (JsString [0x6B]) \<and> string_or_buffer (JsBuffer [0x76])
   \<and> run_newest (OpenFailed OK) (snd (DB_Put [JsString [0x6B], JsBuffer [0x76]] open_world))
       = open_world\<lparr>db := Some (empty_engine\<lparr>contents := [[0x6B] \<mapsto> [0x76]]\<rparr>),
           batches := Map.empty, next_batch := 1,
           trace := [(CallerThread, WriteBatch_new 0), (CallerThread, Params_new),
                     (CallerThread, Eio_custom),
                     (WorkerThread, Leveldb_Write [PutEntry [0x6B] [0x76]]),
                     (CallerThread, WriteBatch_delete 0), (CallerThread, Params_delete)]\<rparr>
   \<and> run_newest (OpenFailed OK)
         (snd (write_single (PutEntry [0x6B] [0x76]) [[0x6B]] [] open_world))
       = open_world\<lparr>db := Some (empty_engine\<lparr>contents := [[0x6B] \<mapsto> [0x76]]\<rparr>),
           batches := [0 \<mapsto> single_batch (PutEntry [0x6B] [0x76]) [[0x6B]]], next_batch := 1,
           trace := [(CallerThread, WriteBatch_new 0), (CallerThread, Params_new),
                     (CallerThread, Eio_custom),
                     (WorkerThread, Leveldb_Write [PutEntry [0x6B] [0x76]]),
                     (CallerThread, Params_delete)]\<rparr>"
proof -
  have h: "db open_world = Some empty_engine" "0 \<le> refs open_world"
    "string_or_buffer (JsString [0x6B])" "string_or_buffer (JsBuffer [0x76])"
    by (simp_all add: open_world_def initial_world_def string_or_buffer_def)
  note t = put_del_are_write_sugar [OF h, of "[]" "PutEntry [0x6B] [0x76]" "[[0x6B]]"
      "OpenFailed OK"]
  have s: "slice_bytes (JsString [0x6B]) = [0x6B]" "slice_bytes (JsBuffer [0x76]) = [0x76]"
    "text_copy (JsString [0x6B]) @ text_copy (JsBuffer [0x76]) = [[0x6B]]"
    by (simp_all add: Utf8Value_def utf8_char_def scalar_value_def)
  have A: "DB_Put [JsString [0x6B], JsBuffer [0x76]] open_world =
           (Returned JsDB,
            own_newest (snd (write_single (PutEntry [0x6B] [0x76]) [[0x6B]] [] open_world)))"
    using t unfolding s by blast
  have B: "run_newest (OpenFailed OK)
             (own_newest (snd (write_single (PutEntry [0x6B] [0x76]) [[0x6B]] [] open_world)))
           = open_world\<lparr>db := Some (empty_engine\<lparr>contents :=
                   apply_entry (contents empty_engine) (PutEntry [0x6B] [0x76])\<rparr>),
               batches := (batches open_world)(next_batch open_world := None),
               next_batch := Suc (next_batch open_world),
               trace := trace open_world @ [(CallerThread, WriteBatch_new (next_batch open_world)),
                   (CallerThread, Params_new), (CallerThread, Eio_custom),
                   (WorkerThread, Leveldb_Write [PutEntry [0x6B] [0x76]])]
                 @ callback_events (trailing_callback []) []
                 @ [(CallerThread, WriteBatch_delete (next_batch open_world)),
                    (CallerThread, Params_delete)]\<rparr>"
    using t by blast
  have C: "run_newest (OpenFailed OK)
             (snd (write_single (PutEntry [0x6B] [0x76]) [[0x6B]] [] open_world))
           = open_world\<lparr>db := Some (empty_engine\<lparr>contents :=
                   apply_entry (contents empty_engine) (PutEntry [0x6B] [0x76])\<rparr>),
               batches := (batches open_world)(next_batch open_world \<mapsto>
                   single_batch (PutEntry [0x6B] [0x76]) [[0x6B]]),
               next_batch := Suc (next_batch open_world),
               trace := trace open_world @ [(CallerThread, WriteBatch_new (next_batch open_world)),
                   (CallerThread, Params_new), (CallerThread, Eio_custom),
                   (WorkerThread, Leveldb_Write [PutEntry [0x6B] [0x76]])]
                 @ callback_events (trailing_callback []) []
                 @ [(CallerThread, Params_delete)]\<rparr>"
    using t by blast
  show ?thesis
    using h unfolding A snd_conv B C
    by (simp add: open_world_def initial_world_def empty_engine_def callback_events_def
          trailing_callback_def opt_callback_def has_options_def)
qed

subsection \<open>Text to bytes and back\<close>



















lemma digits2: "c div 0x40 * 0x40 + c mod 0x40 = (c::nat)"
  by simp
























subsection \<open>Reading back what was put\<close>

lemma get_dispatch:
  assumes "db w \<noteq> None" and "string_or_buffer (arg args 0)"
  shows "DB_Get args w =
     (Returned JsDB,
      eio_custom (ReadReq (new_ReadParams (slice_bytes (arg args 0))
          (if has_options args 1 then JsToReadOptions (arg args 1) else ReadOptions_default)
          (opt_callback args (if has_options args 1 then 2 else 1))
          (if IsString (arg args 0) then Some ([[]] @ text_copy (arg args 0)) else None)))
        (Params_ctor w))"
proof -
  have len: "\<not> length args < 1"
    using assms(2) by (auto simp: arg_def string_or_buffer_def)
  from assms(2) consider s where "arg args 0 = JsString s" | b where "arg args 0 = JsBuffer b"
    by (cases "arg args 0") (simp_all add: string_or_buffer_def)
  then show ?thesis
  proof cases
    case 1
    then show ?thesis using assms(1) len by (simp add: DB_Get_def Let_def numeral_2_eq_2)
  next
    case 2
    then show ?thesis using assms(1) len by (simp add: DB_Get_def Let_def numeral_2_eq_2)
  qed
qed

lemma execute_read:
  assumes "db w = Some e"
  shows "execute ans (ReadReq p) w =
     (ReadReq (case contents e (key p) of
                 None \<Rightarrow> p\<lparr>status := NotFound []\<rparr>
               | Some x \<Rightarrow> p\<lparr>status := OK, result := x\<rparr>),
      log_event WorkerThread (Leveldb_Get (key p)) w)"
  using assms
  by (cases "contents e (key p)") (simp_all add: execute_def EIO_Read_def leveldb_Get_def)

lemma get_delivers:
  assumes "db w = Some e" and "string_or_buffer (arg args 0)"
    and "opt_callback args (if has_options args 1 then 2 else 1) = Some f"
  shows "calls (run_newest ans (snd (DB_Get args w))) =
           calls w @ [(f, case contents e (slice_bytes (arg args 0)) of
                            None \<Rightarrow> [JsNull]
                          | Some x \<Rightarrow> [JsNull, JsString (String_New x)])]"
proof -
  have d: "db w \<noteq> None" using assms(1) by simp
  have e: "db (log_event CallerThread Eio_custom (Params_ctor w)) = Some e"
    using assms(1) by (simp add: db_log_event db_Params_ctor)
  show ?thesis
    using assms(3)
    by (cases "contents e (slice_bytes (arg args 0))")
       (simp_all add: get_dispatch [OF d assms(2)] run_newest_eio_custom execute_read [OF e]
          calls_after calls_log_other calls_Params_ctor new_ReadParams_def callback_argv_def)
qed







subsection \<open>The payload of a get\<close>

lemma calls_executed_update: "calls (w\<lparr>executed := xs\<rparr>) = calls w"
  by (simp add: calls_def)

lemma read_world_eq:
  "read_world =
     \<lparr>db = Some \<lparr>dbname = [], contents = [[0x6B] \<mapsto> [0xFF, 0x61]]\<rparr>, refs = 1, loop_refs = 1,
      batches = Map.empty, next_batch = 0, pending = [],
      executed = [ReadReq \<lparr>callback = Some (Fn 1 False), status = OK, key = [0x6B],
                    roptions = ReadOptions_default, result = [0xFF, 0x61], rstrings = None\<rparr>],
      trace = [(CallerThread, Params_new), (CallerThread, Eio_custom),
               (WorkerThread, Leveldb_Get [0x6B])]\<rparr>"
  by (simp add: read_world_def run_def stocked_world_def initial_world_def DB_Get_def
        arg_def has_options_def opt_callback_def Params_ctor_def Ref_def ev_ref_def
        log_event_def eio_custom_def eio_execute_def execute_def EIO_Read_def leveldb_Get_def
        remove_nth_def new_ReadParams_def Let_def)

text \<open>
  Claim C10. A get that succeeded calls the callback, at completion, with null and a
  text string built by \<^verbatim>\<open>String::New\<close> from the bytes of the result, whether the key was
  given as text or as a buffer and whatever bytes are stored; the payload is never a
  buffer. Run alone on an open handle, a get that finds its key delivers the text read
  from the stored bytes.
\<close>

theorem get_payload_is_text:
  assumes "i < length (executed w')" and "executed w' ! i = ReadReq p"
    and "callback p = Some g" and "ok (status p)"
    and "db w = Some e" and "string_or_buffer (arg args 0)"
    and "opt_callback args (if has_options args 1 then 2 else 1) = Some f"
    and "contents e (slice_bytes (arg args 0)) = Some x"
  shows "calls (eio_complete i w') = calls w' @ [(g, [JsNull, JsString (String_New (result p))])]
       \<and> calls (run_newest ans (snd (DB_Get args w)))
           = calls w @ [(f, [JsNull, JsString (String_New x)])]"
proof -
  have A: "calls (eio_complete i w') = calls w' @ [(g, [JsNull, JsString (String_New (result p))])]"
    using assms(1,2,3,4)
    by (cases "status p")
       (simp_all add: eio_complete_def calls_after calls_executed_update callback_argv_def)
  have B: "calls (run_newest ans (snd (DB_Get args w)))
           = calls w @ [(f, [JsNull, JsString (String_New x)])]"
    using get_delivers [OF assms(5,6,7), of ans] assms(8) by simp
  from A B show ?thesis by blast
qed

theorem get_payload_is_text_witness:
  "0 < length (executed read_world)
   \<and> db stocked_world = Some \<lparr>dbname = [], contents = [[0x6B] \<mapsto> [0xFF, 0x61]]\<rparr>
   \<and> string_or_buffer (arg [JsBuffer [0x6B], JsFunction (Fn 1 False)] 0)
   \<and> calls (eio_complete 0 read_world) = [(Fn 1 False, [JsNull, JsString [0xFFFD, 0x61]])]
   \<and> calls (run_newest (OpenFailed OK)
        (snd (DB_Get [JsBuffer [0x6B], JsFunction (Fn 1 False)] stocked_world)))
       = [(Fn 1 False, [JsNull, JsString [0xFFFD, 0x61]])]"
proof -
  let ?p = "\<lparr>callback = Some (Fn 1 False), status = OK, key = [0x6B],
             roptions = ReadOptions_default, result = [0xFF, 0x61], rstrings = None\<rparr>"
  have r: "0 < length (executed read_world)" "executed read_world ! 0 = ReadReq ?p"
    "callback ?p = Some (Fn 1 False)" "ok (status ?p)"
    by (simp_all add: read_world_eq)
  have h: "db stocked_world = Some \<lparr>dbname = [], contents = [[0x6B] \<mapsto> [0xFF, 0x61]]\<rparr>"
    "string_or_buffer (arg [JsBuffer [0x6B], JsFunction (Fn 1 False)] 0)"
    "opt_callback ([JsBuffer [0x6B], JsFunction (Fn 1 False)])
              (if has_options [JsBuffer [0x6B], JsFunction (Fn 1 False)] 1 then 2 else 1)
            = Some (Fn 1 False)"
    "contents \<lparr>dbname = [], contents = [[0x6B] \<mapsto> [0xFF, 0x61]]\<rparr>
       (slice_bytes (arg [JsBuffer [0x6B], JsFunction (Fn 1 False)] 0)) = Some [0xFF, 0x61]"
    by (simp_all add: stocked_world_def string_or_buffer_def arg_def opt_callback_def
          has_options_def)
  have c: "calls stocked_world = []" "calls read_world = []"
    by (simp_all add: stocked_world_def initial_world_def read_world_eq calls_def
          List.map_filter_def)
  note t = get_payload_is_text [OF r h, of "OpenFailed OK"]
  show ?thesis
    using r(1) h(1,2) unfolding t [THEN conjunct1] t [THEN conjunct2]
    by (simp add: c)
qed

subsection \<open>The completion callback, from the call to its invocation\<close>

lemma trailing_callback_read:
  assumes "tail = JsFunction f # extra
           \<or> (\<exists>opts. tail = opts # JsFunction f # extra \<and> IsObject opts \<and> \<not> IsFunction opts)"
  shows "trailing_callback tail = Some f"
  using assms
  by (auto simp: trailing_callback_def has_options_def opt_callback_def arg_def)

text \<open>The callback is read at these places and at no other.\<close>

lemma callback_read_iff:
  "(trailing_callback tail = Some f) =
     (\<exists>extra. tail = JsFunction f # extra
        \<or> (\<exists>opts. tail = opts # JsFunction f # extra \<and> IsObject opts \<and> \<not> IsFunction opts))"
proof
  assume a: "trailing_callback tail = Some f"
  show "\<exists>extra. tail = JsFunction f # extra
        \<or> (\<exists>opts. tail = opts # JsFunction f # extra \<and> IsObject opts \<and> \<not> IsFunction opts)"
  proof (cases tail)
    case Nil
    then show ?thesis using a
      by (simp add: trailing_callback_def has_options_def opt_callback_def)
  next
    case (Cons x xs)
    show ?thesis
    proof (cases "IsObject x \<and> \<not> IsFunction x")
      case False
      then have "opt_callback tail 0 = Some f"
        using a Cons by (auto simp: trailing_callback_def has_options_def arg_def split: if_splits)
      then have "x = JsFunction f"
        using Cons by (cases x) (simp_all add: opt_callback_def arg_def split: if_splits)
      then show ?thesis using Cons by simp
    next
      case True
      then have o: "opt_callback tail 1 = Some f"
        using a Cons by (auto simp: trailing_callback_def has_options_def arg_def split: if_splits)
      then obtain y ys where xs: "xs = y # ys"
        using Cons by (cases xs) (simp_all add: opt_callback_def)
      have "y = JsFunction f"
        using o Cons xs by (cases y) (simp_all add: opt_callback_def arg_def split: if_splits)
      then show ?thesis using Cons xs True by auto
    qed
  qed
next
  assume "\<exists>extra. tail = JsFunction f # extra
        \<or> (\<exists>opts. tail = opts # JsFunction f # extra \<and> IsObject opts \<and> \<not> IsFunction opts)"
  then show "trailing_callback tail = Some f"
    using trailing_callback_read by blast
qed

lemma pending_eio_custom: "pending (eio_custom r w) = pending w @ [r]"
  by (simp add: eio_custom_def log_event_def)

lemma pending_Params_ctor: "pending (Params_ctor w) = pending w"
  by (simp add: Params_ctor_def Ref_def ev_ref_def log_event_def)

lemma pending_new_WriteBatch: "pending (new_WriteBatch b w) = pending w"
  by (simp add: new_WriteBatch_def log_event_def)

lemma execute_callback: "req_callback (fst (execute answer r w)) = req_callback r"
  by (cases r)
     (auto simp: execute_def EIO_Open_def EIO_Close_def EIO_Write_def EIO_Read_def
        leveldb_Write_def leveldb_Get_def Let_def
        split: option.splits open_answer.splits prod.splits)

lemma executed_eio_execute:
  "map req_callback (executed (eio_execute answer i w)) =
     map req_callback (executed w)
       @ (if i < length (pending w) then [req_callback (pending w ! i)] else [])"
proof (cases "i < length (pending w)")
  case False
  then show ?thesis by (simp add: eio_execute_def)
next
  case True
  let ?w0 = "w\<lparr>pending := remove_nth i (pending w)\<rparr>"
  obtain r' w' where ex: "execute answer (pending w ! i) ?w0 = (r', w')"
    by (cases "execute answer (pending w ! i) ?w0")
  have q: "executed w' = executed w"
    using execute_queues [of answer "pending w ! i" ?w0] ex by simp
  have c: "req_callback r' = req_callback (pending w ! i)"
    using execute_callback [of answer "pending w ! i" ?w0] ex by simp
  show ?thesis
    using True ex q c by (simp add: eio_execute_def)
qed

lemma pending_eio_execute: "pending (eio_execute answer i w) = remove_nth i (pending w)"
proof (cases "i < length (pending w)")
  case False
  then show ?thesis by (simp add: eio_execute_def remove_nth_def)
next
  case True
  let ?w0 = "w\<lparr>pending := remove_nth i (pending w)\<rparr>"
  obtain r' w' where ex: "execute answer (pending w ! i) ?w0 = (r', w')"
    by (cases "execute answer (pending w ! i) ?w0")
  have q: "pending w' = remove_nth i (pending w)"
    using execute_queues [of answer "pending w ! i" ?w0] ex by simp
  show ?thesis
    using True ex q by (simp add: eio_execute_def)
qed

lemma executed_eio_complete: "executed (eio_complete j w) = remove_nth j (executed w)"
  by (simp add: eio_complete_def after_queues remove_nth_def)

lemma close_dispatch:
  "DB_Close (JsFunction f # extra) w =
     (Returned JsDB, eio_custom (CloseReq (new_Params (Some f))) (Params_ctor w))"
  by (simp add: DB_Close_def opt_callback_def arg_def Let_def)

lemmas evaluation = run_def initial_world_def open_world_def stocked_world_def empty_engine_def
  DB_Open_def DB_Get_def DB_Put_def DB_Close_def
  arg_def has_options_def opt_callback_def Params_ctor_def Params_dtor_def Ref_def Unref_def
  ev_ref_def ev_unref_def log_event_def eio_custom_def eio_execute_def eio_complete_def
  execute_def after_def EIO_Open_def EIO_AfterOpen_def EIO_Write_def EIO_Read_def EIO_Close_def
  EIO_AfterClose_def EIO_AfterWrite_def EIO_AfterRead_def delete_db_def
  Callback_def remove_nth_def Utf8Value_def utf8_char_def scalar_value_def c_str_def
  new_OpenParams_def new_ReadParams_def new_Params_def
  new_WriteParams_def new_WriteBatch_def owned_def leveldb_Write_def leveldb_Get_def Let_def
  string_or_buffer_def

text \<open>
  Claim C2, as amended. A method reads its callback at one place: a function directly
  after the required arguments, or directly after an options object (an object that is
  no function) that follows them; \<^verbatim>\<open>close\<close> has neither required arguments nor options
  and reads a function given first. A callback supplied there is in the bundle the call
  dispatches; execution hands the bundle on with the same callback, and completion calls
  it exactly once, with arguments fixed by the outcome: none for success without a
  payload; null and the payload for success with one; null alone for not-found, which
  is no error; a single error object holding the status text (a C string) for any other
  failure. The request leaves its queue when it is executed and when it is completed.
\<close>

theorem completion_shapes:
  assumes "tail = JsFunction f # extra
           \<or> (\<exists>opts. tail = opts # JsFunction f # extra \<and> IsObject opts \<and> \<not> IsFunction opts)"
  shows "map req_callback (pending (snd (DB_Open (JsString s # tail) w)))
           = map req_callback (pending w) @ [Some f]
       \<and> map req_callback (pending (snd (DB_Close (JsFunction f # extra) w)))
           = map req_callback (pending w) @ [Some f]
       \<and> (db w \<noteq> None \<and> string_or_buffer k \<and> string_or_buffer v \<longrightarrow>
            map req_callback (pending (snd (DB_Put (k # v # tail) w)))
              = map req_callback (pending w) @ [Some f])
       \<and> (db w \<noteq> None \<and> string_or_buffer k \<longrightarrow>
            map req_callback (pending (snd (DB_Del (k # tail) w)))
              = map req_callback (pending w) @ [Some f])
       \<and> (db w \<noteq> None \<longrightarrow>
            map req_callback (pending (snd (DB_Write (JsWriteBatch a # tail) w)))
              = map req_callback (pending w) @ [Some f])
       \<and> (db w \<noteq> None \<and> string_or_buffer k \<longrightarrow>
            map req_callback (pending (snd (DB_Get (k # tail) w)))
              = map req_callback (pending w) @ [Some f])
       \<and> map req_callback (executed (eio_execute answer i w'))
           = map req_callback (executed w')
               @ (if i < length (pending w') then [req_callback (pending w' ! i)] else [])
       \<and> pending (eio_execute answer i w') = remove_nth i (pending w')
       \<and> executed (eio_complete j w') = remove_nth j (executed w')
       \<and> (j < length (executed w') \<and> req_callback (executed w' ! j) = Some f \<longrightarrow>
            calls (eio_complete j w') = calls w' @
              [(f, case req_status (executed w' ! j) of
                     OK \<Rightarrow> (case payload (executed w' ! j) of
                               None \<Rightarrow> [] | Some x \<Rightarrow> [JsNull, x])
                   | NotFound m \<Rightarrow> [JsNull]
                   | st \<Rightarrow> [JsError (c_chars (ToString st))])])"
proof -
  note t = trailing_callback_read [OF assms]
  have 1: "map req_callback (pending (snd (DB_Open (JsString s # tail) w)))
           = map req_callback (pending w) @ [Some f]"
    by (simp add: open_dispatch pending_eio_custom pending_Params_ctor t new_OpenParams_def)
  have 2: "map req_callback (pending (snd (DB_Close (JsFunction f # extra) w)))
           = map req_callback (pending w) @ [Some f]"
    by (simp add: close_dispatch pending_eio_custom pending_Params_ctor new_Params_def)
  have 3: "map req_callback (pending (snd (DB_Put (k # v # tail) w)))
              = map req_callback (pending w) @ [Some f]"
    if "db w \<noteq> None" "string_or_buffer k" "string_or_buffer v"
    by (simp add: put_dispatch [OF that] pending_eio_custom pending_Params_ctor
          pending_new_WriteBatch t new_WriteParams_def)
  have 4: "map req_callback (pending (snd (DB_Del (k # tail) w)))
              = map req_callback (pending w) @ [Some f]"
    if "db w \<noteq> None" "string_or_buffer k"
    by (simp add: del_dispatch [OF that] pending_eio_custom pending_Params_ctor
          pending_new_WriteBatch t new_WriteParams_def)
  have 5: "map req_callback (pending (snd (DB_Write (JsWriteBatch a # tail) w)))
              = map req_callback (pending w) @ [Some f]"
    if "db w \<noteq> None"
    by (simp add: write_dispatch [OF that] pending_eio_custom pending_Params_ctor t
          new_WriteParams_def)
  have 6: "map req_callback (pending (snd (DB_Get (k # tail) w)))
              = map req_callback (pending w) @ [Some f]"
    if "db w \<noteq> None" "string_or_buffer k"
  proof -
    have k: "string_or_buffer (arg (k # tail) 0)" using that(2) by (simp add: arg_def)
    have c: "opt_callback (k # tail) (if has_options (k # tail) 1 then 2 else 1) = Some f"
      using t
      by (auto simp: trailing_callback_def has_options_Cons_Suc [of k tail 0, simplified]
            opt_callback_Cons_Suc [of k tail 0, simplified]
            opt_callback_Cons_Suc [of k tail 1, simplified] numeral_2_eq_2
          split: if_splits)
    show ?thesis
      using c
      by (auto simp: get_dispatch [OF that(1) k] pending_eio_custom pending_Params_ctor
            new_ReadParams_def split: if_splits)
  qed
  have 7: "map req_callback (executed (eio_execute answer i w'))
           = map req_callback (executed w')
               @ (if i < length (pending w') then [req_callback (pending w' ! i)] else [])"
    by (rule executed_eio_execute)
  have 8: "calls (eio_complete j w') = calls w' @
              [(f, case req_status (executed w' ! j) of
                     OK \<Rightarrow> (case payload (executed w' ! j) of
                               None \<Rightarrow> [] | Some x \<Rightarrow> [JsNull, x])
                   | NotFound m \<Rightarrow> [JsNull]
                   | st \<Rightarrow> [JsError (c_chars (ToString st))])]"
    if "j < length (executed w')" "req_callback (executed w' ! j) = Some f"
    using that
    by (cases "req_status (executed w' ! j)")
       (simp_all add: eio_complete_def calls_after calls_executed_update callback_argv_def)
  note 9 = pending_eio_execute [of answer i w'] executed_eio_complete [of j w']
  from 1 2 3 4 5 6 7 8 9 show ?thesis by blast
qed


theorem completion_shapes_witness:
  "db open_world \<noteq> None \<and> db stocked_world \<noteq> None
   \<and> string_or_buffer (JsString [0x6B]) \<and> string_or_buffer (JsBuffer [0x6B])
   \<and> string_or_buffer (JsString [0x76])
   \<and> IsObject (JsObject []) \<and> \<not> IsFunction (JsObject [])
   \<and> map req_callback (pending (snd (DB_Put
         [JsString [0x6B], JsString [0x76], JsObject [], JsFunction (Fn 1 False)] open_world)))
       = [Some (Fn 1 False)]
   \<and> calls (eio_complete 0 (run
         [Invoke M_put [JsString [0x6B], JsString [0x76], JsObject [], JsFunction (Fn 1 False)],
          Work (OpenFailed OK) 0] open_world))
       = [(Fn 1 False, [])]
   \<and> map req_callback (pending (snd (DB_Get
         [JsBuffer [0x6B], JsFunction (Fn 1 False)] stocked_world)))
       = [Some (Fn 1 False)]
   \<and> calls (eio_complete 0 read_world) = [(Fn 1 False, [JsNull, JsString [0xFFFD, 0x61]])]
   \<and> calls (eio_complete 0 (run
         [Invoke M_get [JsString [0x6B], JsObject [], JsFunction (Fn 2 False)],
          Work (OpenFailed OK) 0] open_world))
       = [(Fn 2 False, [JsNull])]
   \<and> map req_callback (pending (snd (DB_Open
         [JsString [0x64], JsFunction (Fn 3 False)] initial_world)))
       = [Some (Fn 3 False)]
   \<and> calls (eio_complete 0 (run
         [Invoke M_open [JsString [0x64], JsFunction (Fn 3 False)],
          Work (OpenFailed (IOError ''lock'')) 0] initial_world))
       = [(Fn 3 False, [JsError ''IO error: lock''])]"
proof -
  let ?put = "run [Invoke M_put [JsString [0x6B], JsString [0x76], JsObject [],
                     JsFunction (Fn 1 False)], Work (OpenFailed OK) 0] open_world"
  let ?get = "run [Invoke M_get [JsString [0x6B], JsObject [], JsFunction (Fn 2 False)],
                   Work (OpenFailed OK) 0] open_world"
  let ?opn = "run [Invoke M_open [JsString [0x64], JsFunction (Fn 3 False)],
                   Work (OpenFailed (IOError ''lock'')) 0] initial_world"
  have h: "db open_world \<noteq> None" "db stocked_world \<noteq> None"
    "string_or_buffer (JsString [0x6B])" "string_or_buffer (JsBuffer [0x6B])"
    "string_or_buffer (JsString [0x76])" "IsObject (JsObject [])" "\<not> IsFunction (JsObject [])"
    by (simp_all add: open_world_def stocked_world_def initial_world_def string_or_buffer_def)
  have e1: "executed ?put = [WriteReq \<lparr>callback = Some (Fn 1 False), status = OK, writeBatch = 0,
                    woptions = JsToWriteOptions (JsObject []), disposeWriteBatch = True\<rparr>]"
    "calls ?put = []"
    by (simp_all add: evaluation calls_def List.map_filter_def)
  have e2: "executed read_world ! 0 = ReadReq \<lparr>callback = Some (Fn 1 False), status = OK,
                 key = [0x6B], roptions = ReadOptions_default, result = [0xFF, 0x61],
                 rstrings = None\<rparr>"
    "length (executed read_world) = 1" "calls read_world = []"
    by (simp_all add: read_world_eq calls_def List.map_filter_def)
  have e3: "executed ?get = [ReadReq \<lparr>callback = Some (Fn 2 False), status = NotFound [],
                 key = [0x6B], roptions = JsToReadOptions (JsObject []), result = [],
                 rstrings = Some [[], [0x6B]]\<rparr>]"
    "calls ?get = []"
    by (simp_all add: evaluation calls_def List.map_filter_def)
  have e4: "executed ?opn = [OpenReq \<lparr>callback = Some (Fn 3 False),
                 status = IOError ''lock'', name = [0x64], options = Options_default\<rparr>]"
    "calls ?opn = []"
    by (simp_all add: evaluation calls_def List.map_filter_def)
  have t1: "[JsObject [], JsFunction (Fn 1 False)] = JsFunction (Fn 1 False) # []
           \<or> (\<exists>opts. [JsObject [], JsFunction (Fn 1 False)] = opts # JsFunction (Fn 1 False) # []
                 \<and> IsObject opts \<and> \<not> IsFunction opts)"
    by simp
  have t2: "[JsFunction (Fn 1 False)] = JsFunction (Fn 1 False) # []
           \<or> (\<exists>opts. [JsFunction (Fn 1 False)] = opts # JsFunction (Fn 1 False) # []
                 \<and> IsObject opts \<and> \<not> IsFunction opts)"
    by simp
  have t3: "[JsObject [], JsFunction (Fn 2 False)] = JsFunction (Fn 2 False) # []
           \<or> (\<exists>opts. [JsObject [], JsFunction (Fn 2 False)] = opts # JsFunction (Fn 2 False) # []
                 \<and> IsObject opts \<and> \<not> IsFunction opts)"
    by simp
  have t4: "[JsFunction (Fn 3 False)] = JsFunction (Fn 3 False) # []
           \<or> (\<exists>opts. [JsFunction (Fn 3 False)] = opts # JsFunction (Fn 3 False) # []
                 \<and> IsObject opts \<and> \<not> IsFunction opts)"
    by simp
  note c1 = completion_shapes [OF t1, where w = open_world and k = "JsString [0x6B]"
      and v = "JsString [0x76]" and w' = ?put and j = 0]
  note c2 = completion_shapes [OF t2, where w = stocked_world and k = "JsBuffer [0x6B]"
      and w' = read_world and j = 0]
  note c3 = completion_shapes [OF t3, where w' = ?get and j = 0]
  note c4 = completion_shapes [OF t4, where w = initial_world and s = "[0x64]"
      and w' = ?opn and j = 0]
  have A1: "map req_callback (pending (snd (DB_Put
         [JsString [0x6B], JsString [0x76], JsObject [], JsFunction (Fn 1 False)] open_world)))
       = map req_callback (pending open_world) @ [Some (Fn 1 False)]"
    using c1 h by blast
  have B1: "calls (eio_complete 0 ?put) = calls ?put @
              [(Fn 1 False, case req_status (executed ?put ! 0) of
                     OK \<Rightarrow> (case payload (executed ?put ! 0) of
                               None \<Rightarrow> [] | Some x \<Rightarrow> [JsNull, x])
                   | NotFound m \<Rightarrow> [JsNull]
                   | st \<Rightarrow> [JsError (c_chars (ToString st))])]"
    using c1 e1 by simp
  have A2: "map req_callback (pending (snd (DB_Get
         [JsBuffer [0x6B], JsFunction (Fn 1 False)] stocked_world)))
       = map req_callback (pending stocked_world) @ [Some (Fn 1 False)]"
    using c2 h by blast
  have B2: "calls (eio_complete 0 read_world) = calls read_world @
              [(Fn 1 False, case req_status (executed read_world ! 0) of
                     OK \<Rightarrow> (case payload (executed read_world ! 0) of
                               None \<Rightarrow> [] | Some x \<Rightarrow> [JsNull, x])
                   | NotFound m \<Rightarrow> [JsNull]
                   | st \<Rightarrow> [JsError (c_chars (ToString st))])]"
    using c2 e2 by simp
  have B3: "calls (eio_complete 0 ?get) = calls ?get @
              [(Fn 2 False, case req_status (executed ?get ! 0) of
                     OK \<Rightarrow> (case payload (executed ?get ! 0) of
                               None \<Rightarrow> [] | Some x \<Rightarrow> [JsNull, x])
                   | NotFound m \<Rightarrow> [JsNull]
                   | st \<Rightarrow> [JsError (c_chars (ToString st))])]"
    using c3 e3 by simp
  have A4: "map req_callback (pending (snd (DB_Open
         [JsString [0x64], JsFunction (Fn 3 False)] initial_world)))
       = map req_callback (pending initial_world) @ [Some (Fn 3 False)]"
    using c4 by blast
  have B4: "calls (eio_complete 0 ?opn) = calls ?opn @
              [(Fn 3 False, case req_status (executed ?opn ! 0) of
                     OK \<Rightarrow> (case payload (executed ?opn ! 0) of
                               None \<Rightarrow> [] | Some x \<Rightarrow> [JsNull, x])
                   | NotFound m \<Rightarrow> [JsNull]
                   | st \<Rightarrow> [JsError (c_chars (ToString st))])]"
    using c4 e4 by simp
  have sn: "String_New [0xFF, 0x61] = [0xFFFD, 0x61]" by simp
  have p0: "pending open_world = []" "pending stocked_world = []" "pending initial_world = []"
    by (simp_all add: open_world_def stocked_world_def initial_world_def)
  show ?thesis
    unfolding A1 B1 A2 B2 B3 A4 B4 e1 e2 e3 e4 p0
    using h by (simp add: sn c_chars_def)
qed

text \<open>
  The claim as stated fails for a callback supplied where the method does not read it.
  In \<^verbatim>\<open>put(k, v, null, cb)\<close> null is no options object, so the callback is looked for in
  its place; in \<^verbatim>\<open>close({}, cb)\<close> only the first argument is looked at. Both operations
  run to completion (the put is stored, the handle is closed) and \<open>cb\<close> is never called.
\<close>

theorem completion_shapes_counterexample:
  "fst (DB_Put [JsString [0x6B], JsString [0x76], JsNull, JsFunction (Fn 1 False)] open_world)
     = Returned JsDB
   \<and> calls (run_newest (OpenFailed OK) (snd (DB_Put
        [JsString [0x6B], JsString [0x76], JsNull, JsFunction (Fn 1 False)] open_world))) = []
   \<and> in_flight (run_newest (OpenFailed OK) (snd (DB_Put
        [JsString [0x6B], JsString [0x76], JsNull, JsFunction (Fn 1 False)] open_world))) = 0
   \<and> db (run_newest (OpenFailed OK) (snd (DB_Put
        [JsString [0x6B], JsString [0x76], JsNull, JsFunction (Fn 1 False)] open_world)))
       = Some (empty_engine\<lparr>contents := [[0x6B] \<mapsto> [0x76]]\<rparr>)
   \<and> fst (DB_Close [JsObject [], JsFunction (Fn 2 False)] open_world) = Returned JsDB
   \<and> calls (run_newest (OpenFailed OK) (snd (DB_Close
        [JsObject [], JsFunction (Fn 2 False)] open_world))) = []
   \<and> in_flight (run_newest (OpenFailed OK) (snd (DB_Close
        [JsObject [], JsFunction (Fn 2 False)] open_world))) = 0
   \<and> db (run_newest (OpenFailed OK) (snd (DB_Close
        [JsObject [], JsFunction (Fn 2 False)] open_world))) = None"
  by (simp add: evaluation run_newest_def in_flight_def calls_def List.map_filter_def
        delete_WriteBatch_def)

end
